theory Spec2Isabelle
  imports Complex_Main "HOL-Library.AList"
begin

section \<open>Data model of generate\_choreo.py\<close>

text \<open>
  A Python float that holds a joint coordinate is a value of \<open>pyfloat\<close>: a finite
  number, an infinity or NaN (see below).  The other floats (times, tempo, duration,
  progress) are \<^typ>\<open>real\<close>; where the code truncates a float quotient to an integer, the
  rounding of the machine is a parameter of the run (\<open>fl_round\<close>).  A Python dict is an
  association list in insertion order with distinct keys;
  \<open>d[k] = v\<close> is \<^const>\<open>AList.update\<close>, which overwrites in place or appends.  Exceptions
  are values of \<open>py_error\<close>; a function that can raise returns \<open>py_error + 'a\<close>.
  Standard output is the list of progress events printed so far, passed through every
  function that prints.  The keys \<open>bpm\<close> and \<open>frames\<close> of the choreography dict are the
  fields \<open>choreo_bpm\<close> and \<open>choreo_frames\<close>, since the functions use these two names for
  their arguments and local variables.
\<close>

datatype py_error = ZeroDivisionError | IndexError | External string

text \<open>
  Floats of coordinates.  \<open>Fin r\<close> is a finite float of value \<open>r\<close>, \<open>PInf\<close> and \<open>NInf\<close> are
  the infinities.  An exact result of magnitude \<open>2^1024 - 2^970\<close> or more overflows to
  an infinity, as IEEE 754 doubles do; a smaller result is kept exact (its rounding
  to 53 bits and the sign of zero are not modelled).
\<close>

datatype pyfloat = Fin real | PInf | NInf | NaN

definition overflow_at :: real where
  "overflow_at = 2 ^ 1024 - 2 ^ 970"

definition fl_of :: "real \<Rightarrow> pyfloat" where
  "fl_of r = (if overflow_at \<le> r then PInf else if r \<le> - overflow_at then NInf else Fin r)"

fun fl_neg :: "pyfloat \<Rightarrow> pyfloat" where
  "fl_neg (Fin r) = Fin (- r)"
| "fl_neg PInf = NInf"
| "fl_neg NInf = PInf"
| "fl_neg NaN = NaN"

fun fl_add :: "pyfloat \<Rightarrow> pyfloat \<Rightarrow> pyfloat" where
  "fl_add (Fin a) (Fin b) = fl_of (a + b)"
| "fl_add NaN b = NaN"
| "fl_add a NaN = NaN"
| "fl_add PInf NInf = NaN"
| "fl_add NInf PInf = NaN"
| "fl_add PInf b = PInf"
| "fl_add a PInf = PInf"
| "fl_add NInf b = NInf"
| "fl_add a NInf = NInf"

definition fl_sub :: "pyfloat \<Rightarrow> pyfloat \<Rightarrow> pyfloat" where
  "fl_sub a b = fl_add a (fl_neg b)"

text \<open>Python's \<open>a / b\<close> on floats raises when \<open>b\<close> is zero, whatever \<open>a\<close> is.\<close>

fun fl_div :: "pyfloat \<Rightarrow> pyfloat \<Rightarrow> py_error + pyfloat" where
  "fl_div a (Fin b) =
     (if b = 0 then Inl ZeroDivisionError
      else case a of
             Fin x \<Rightarrow> Inr (fl_of (x / b))
           | PInf \<Rightarrow> Inr (if 0 < b then PInf else NInf)
           | NInf \<Rightarrow> Inr (if 0 < b then NInf else PInf)
           | NaN \<Rightarrow> Inr NaN)"
| "fl_div a NaN = Inr NaN"
| "fl_div (Fin x) b = Inr (Fin 0)"
| "fl_div a b = Inr NaN"

text \<open>\<open>a < b\<close> on floats: false when either is NaN.\<close>

fun fl_lt :: "pyfloat \<Rightarrow> pyfloat \<Rightarrow> bool" where
  "fl_lt NaN b = False"
| "fl_lt a NaN = False"
| "fl_lt (Fin a) (Fin b) = (a < b)"
| "fl_lt NInf NInf = False"
| "fl_lt NInf b = True"
| "fl_lt a PInf = (a \<noteq> PInf)"
| "fl_lt a b = False"

type_synonym point = "pyfloat \<times> pyfloat"
type_synonym pose = "(string \<times> point) list"

record keyframe =
  timestamp :: real
  joints :: pose

record choreography =
  songMD5 :: string
  choreo_bpm :: real
  totalDuration :: real
  choreo_frames :: "keyframe list"

record event =
  stage :: string
  progress :: real
  error :: "string option"

definition JOINT_NAMES :: "string list" where
  "JOINT_NAMES =
    [''nose'', ''left_eye'', ''right_eye'', ''left_ear'', ''right_ear'',
     ''left_shoulder'', ''right_shoulder'',
     ''left_elbow'', ''right_elbow'',
     ''left_wrist'', ''right_wrist'',
     ''left_hip'', ''right_hip'',
     ''left_knee'', ''right_knee'',
     ''left_ankle'', ''right_ankle'']"

definition SMPL_TO_JOINT :: "(nat \<times> string) list" where
  "SMPL_TO_JOINT =
    [(15, ''nose''),
     (16, ''left_ear''),
     (17, ''right_ear''),
     (18, ''left_shoulder''),
     (19, ''right_shoulder''),
     (20, ''left_elbow''),
     (21, ''right_elbow''),
     (22, ''left_wrist''),
     (23, ''right_wrist''),
     (1, ''left_hip''),
     (2, ''right_hip''),
     (4, ''left_knee''),
     (5, ''right_knee''),
     (7, ''left_ankle''),
     (8, ''right_ankle'')]"

text \<open>A coordinate is a finite number of \<open>[0,1]\<close>; a point is inside the unit square.\<close>

fun unit_coord :: "pyfloat \<Rightarrow> bool" where
  "unit_coord (Fin r) = (0 \<le> r \<and> r \<le> 1)"
| "unit_coord c = False"

definition in_unit :: "point \<Rightarrow> bool" where
  "in_unit p = (unit_coord (fst p) \<and> unit_coord (snd p))"

section \<open>The coordinate normalizer: project\_smpl\_to\_2d\<close>

text \<open>
  The first loop of \<open>project_smpl_to_2d\<close>: the items of \<open>SMPL_TO_JOINT\<close> in order; a row
  \<open>j\<close> of the array is a list of floats, and \<open>j[0]\<close>, \<open>j[1]\<close> raise \<open>IndexError\<close> on a row
  with fewer than two entries.
\<close>

fun collect_visible ::
  "(nat \<times> string) list \<Rightarrow> pyfloat list list \<Rightarrow> (string \<times> point) list \<Rightarrow> py_error + (string \<times> point) list"
where
  "collect_visible [] joints_3d visible = Inr visible"
| "collect_visible ((smpl_idx, name) # rest) joints_3d visible =
     (if smpl_idx < length joints_3d then
        (let j = joints_3d ! smpl_idx in
         if length j < 2 then Inl IndexError
         else collect_visible rest joints_3d (AList.update name (j ! 0, j ! 1) visible))
      else collect_visible rest joints_3d visible)"

text \<open>
  Python's \<open>min\<close> and \<open>max\<close> of a non-empty list: a left-to-right scan that replaces the
  current item when the next one is smaller (larger).  On the empty list they raise;
  \<open>project_smpl_to_2d\<close> returns before it calls them there, so what the model gives
  the empty list is never read.
\<close>

fun py_min :: "pyfloat list \<Rightarrow> pyfloat" where
  "py_min [] = Fin 0"
| "py_min (x # xs) = fold (\<lambda>item cur. if fl_lt item cur then item else cur) xs x"

fun py_max :: "pyfloat list \<Rightarrow> pyfloat" where
  "py_max [] = Fin 0"
| "py_max (x # xs) = fold (\<lambda>item cur. if fl_lt cur item then item else cur) xs x"

text \<open>\<open>a or 1.0\<close> on floats: the value \<open>a\<close> unless it is zero (NaN is not zero).\<close>

definition or_one :: "pyfloat \<Rightarrow> pyfloat" where
  "or_one a = (if a = Fin 0 then Fin 1 else a)"

text \<open>
  The second loop, \<open>for name, (x, y) in visible.items()\<close>, with the dict \<open>normalized\<close>
  built so far; each of its two divisions can raise.
\<close>

fun normalize_points ::
  "(string \<times> point) list \<Rightarrow> pyfloat \<Rightarrow> pyfloat \<Rightarrow> pyfloat \<Rightarrow> pyfloat \<Rightarrow> pose \<Rightarrow> py_error + pose"
where
  "normalize_points [] min_x range_x min_y range_y normalized = Inr normalized"
| "normalize_points ((name, (x, y)) # rest) min_x range_x min_y range_y normalized =
     (case fl_div (fl_sub x min_x) range_x of
        Inl e \<Rightarrow> Inl e
      | Inr nx \<Rightarrow>
          (case fl_div (fl_sub y min_y) range_y of
             Inl e \<Rightarrow> Inl e
           | Inr q \<Rightarrow>
               normalize_points rest min_x range_x min_y range_y
                 (AList.update name (nx, fl_sub (Fin 1) q) normalized)))"

definition project_smpl_to_2d :: "pyfloat list list \<Rightarrow> py_error + pose" where
  "project_smpl_to_2d joints_3d =
     (case collect_visible SMPL_TO_JOINT joints_3d [] of
        Inl e \<Rightarrow> Inl e
      | Inr visible \<Rightarrow>
          if visible = [] then Inr []
          else
            let xs = map (\<lambda>(name, v). fst v) visible;
                ys = map (\<lambda>(name, v). snd v) visible;
                min_x = py_min xs; max_x = py_max xs;
                min_y = py_min ys; max_y = py_max ys;
                range_x = or_one (fl_sub max_x min_x);
                range_y = or_one (fl_sub max_y min_y)
            in normalize_points visible min_x range_x min_y range_y [])"

text \<open>
  The raw points the first loop collects when no row is too short: one per item of
  \<open>SMPL_TO_JOINT\<close> whose index is inside the array, in the order of the table.
\<close>

definition raw_point :: "pyfloat list list \<Rightarrow> nat \<times> string \<Rightarrow> string \<times> point" where
  "raw_point joints_3d =
     (\<lambda>(smpl_idx, name). (name, (joints_3d ! smpl_idx ! 0, joints_3d ! smpl_idx ! 1)))"

definition visible_points :: "pyfloat list list \<Rightarrow> (string \<times> point) list" where
  "visible_points joints_3d =
     map (raw_point joints_3d) (filter (\<lambda>(smpl_idx, name). smpl_idx < length joints_3d) SMPL_TO_JOINT)"

section \<open>The procedural sequencer: generate\_template\_choreo\<close>

text \<open>
  The numbers of the template poses are computed in the reals and stored as finite floats:
  they stay within \<open>[0,1]\<close> with a margin of 0.02, far from any overflow.
\<close>

definition pt :: "real \<Rightarrow> real \<Rightarrow> point" where
  "pt x y = (Fin x, Fin y)"

definition base_pose :: pose where
  "base_pose =
    [(''nose'',           pt 0.50 0.08),
     (''left_shoulder'',  pt 0.38 0.22),
     (''right_shoulder'', pt 0.62 0.22),
     (''left_elbow'',     pt 0.28 0.38),
     (''right_elbow'',    pt 0.72 0.38),
     (''left_wrist'',     pt 0.22 0.52),
     (''right_wrist'',    pt 0.78 0.52),
     (''left_hip'',       pt 0.42 0.52),
     (''right_hip'',      pt 0.58 0.52),
     (''left_knee'',      pt 0.40 0.70),
     (''right_knee'',     pt 0.60 0.70),
     (''left_ankle'',     pt 0.40 0.88),
     (''right_ankle'',    pt 0.60 0.88)]"

definition arms_up :: "real \<Rightarrow> pose" where
  "arms_up t_phase =
     (let p = base_pose;
          lift = \<bar>sin (t_phase * pi)\<bar>;
          p = AList.update ''left_elbow''  (pt 0.30 (0.22 - lift * 0.10)) p;
          p = AList.update ''right_elbow'' (pt 0.70 (0.22 - lift * 0.10)) p;
          p = AList.update ''left_wrist''  (pt 0.25 (0.10 - lift * 0.08)) p;
          p = AList.update ''right_wrist'' (pt 0.75 (0.10 - lift * 0.08)) p
      in p)"

definition side_step :: "real \<Rightarrow> real \<Rightarrow> pose" where
  "side_step t_phase direction =
     (let p = base_pose;
          shift = direction * 0.06 * \<bar>sin (t_phase * pi)\<bar>;
          p = map (\<lambda>(k, v). (k, (fl_add (fst v) (Fin shift), snd v))) p;
          p = AList.update ''left_elbow''  (pt 0.20 0.35) p;
          p = AList.update ''right_elbow'' (pt 0.80 0.35) p;
          p = AList.update ''left_wrist''  (pt 0.15 0.50) p;
          p = AList.update ''right_wrist'' (pt 0.85 0.50) p
      in p)"

definition wave_arms :: "real \<Rightarrow> pose" where
  "wave_arms t_phase =
     (let p = base_pose;
          wave = sin (t_phase * pi * 2);
          p = AList.update ''left_elbow''  (pt (0.28 + wave * 0.08) (0.32 + wave * 0.06)) p;
          p = AList.update ''left_wrist''  (pt (0.18 + wave * 0.12) (0.20 + wave * 0.10)) p;
          p = AList.update ''right_elbow'' (pt (0.72 - wave * 0.08) (0.32 - wave * 0.06)) p;
          p = AList.update ''right_wrist'' (pt (0.82 - wave * 0.12) (0.20 - wave * 0.10)) p
      in p)"

text \<open>
  \<open>move_sequence\<close> is a list of the three local functions; the datatype names them, so that
  \<open>move_sequence[move_idx] == side_step\<close> is decidable, and \<open>call_move\<close> is the call with
  one argument (\<open>side_step\<close> then takes its default \<open>direction = 1.0\<close>).
\<close>

datatype move = Arms_up | Side_step | Wave_arms

definition move_sequence :: "move list" where
  "move_sequence = [Arms_up, Side_step, Wave_arms, Side_step]"

definition move_beats :: nat where
  "move_beats = 4"

fun call_move :: "move \<Rightarrow> real \<Rightarrow> pose" where
  "call_move Arms_up t_phase = arms_up t_phase"
| "call_move Side_step t_phase = side_step t_phase 1"
| "call_move Wave_arms t_phase = wave_arms t_phase"

text \<open>The body of the loop for the beat with index \<open>i\<close>, after the test of the break.\<close>

definition template_frame :: "nat \<Rightarrow> real \<Rightarrow> keyframe" where
  "template_frame i beat_time =
     (let move_idx = (i div move_beats) mod length move_sequence;
          beat_in_move = i mod move_beats;
          t_phase = real beat_in_move / real move_beats;
          direction = (if (i div move_beats) mod 2 = 0 then 1 else - 1)
      in \<lparr>timestamp = beat_time,
          joints = (if move_sequence ! move_idx = Side_step
                    then side_step t_phase direction
                    else call_move (move_sequence ! move_idx) t_phase)\<rparr>)"

text \<open>\<open>for i, beat_time in enumerate(beat_times)\<close>, with the list of frames built so far.\<close>

fun template_loop :: "nat \<Rightarrow> real list \<Rightarrow> real \<Rightarrow> keyframe list \<Rightarrow> keyframe list" where
  "template_loop i [] duration frames = frames"
| "template_loop i (beat_time # rest) duration frames =
     (if beat_time > duration then frames
      else template_loop (Suc i) rest duration (frames @ [template_frame i beat_time]))"

definition generate_template_choreo :: "real \<Rightarrow> real list \<Rightarrow> real \<Rightarrow> py_error + keyframe list" where
  "generate_template_choreo bpm beat_times duration =
     (if bpm = 0 then Inl ZeroDivisionError
      else
        let beat_interval = 60 / bpm
        in Inr (template_loop 0 beat_times duration []))"

section \<open>The ML tier: try\_edge\_generation\<close>

text \<open>
  The EDGE model is an external service; what it does in one run is a value of
  \<open>edge_outcome\<close>: where the body of \<open>try_edge_generation\<close> leaves its straight path, or the
  list of \<open>(t, pose_3d)\<close> the inference returns.
\<close>

datatype edge_outcome =
    TorchMissing py_error
  | EdgeSpecMissing
  | EdgeLoadFails py_error
  | EdgeInferenceFails py_error
  | EdgeOutput "(real \<times> pyfloat list list) list"

definition emit_progress :: "string \<Rightarrow> real \<Rightarrow> event list \<Rightarrow> event list" where
  "emit_progress s p out = out @ [\<lparr>stage = s, progress = p, error = None\<rparr>]"

text \<open>
  \<open>for i, (t, pose_3d) in enumerate(output)\<close>: frames with an empty pose are skipped.
  A pose is given as the rows of the array that \<open>np.array(pose_3d)\<close> makes of it.
\<close>

fun project_frames ::
  "(real \<times> pyfloat list list) list \<Rightarrow> keyframe list \<Rightarrow> py_error + keyframe list"
where
  "project_frames [] frames = Inr frames"
| "project_frames ((t, pose_3d) # rest) frames =
     (case project_smpl_to_2d pose_3d of
        Inl e \<Rightarrow> Inl e
      | Inr joints_2d \<Rightarrow>
          if joints_2d \<noteq> []
          then project_frames rest (frames @ [\<lparr>timestamp = t, joints = joints_2d\<rparr>])
          else project_frames rest frames)"

text \<open>The body of the \<open>try\<close> block: what it returns or raises, and what it has printed.\<close>

definition edge_body ::
  "edge_outcome \<Rightarrow> event list \<Rightarrow> event list \<times> (py_error + keyframe list option)"
where
  "edge_body eo out =
     (case eo of
        TorchMissing e \<Rightarrow> (out, Inl e)
      | EdgeSpecMissing \<Rightarrow> (out, Inr None)
      | EdgeLoadFails e \<Rightarrow> (emit_progress ''Loading EDGE model'' 0.35 out, Inl e)
      | EdgeInferenceFails e \<Rightarrow>
          (emit_progress ''Running EDGE inference'' 0.5
             (emit_progress ''Loading EDGE model'' 0.35 out), Inl e)
      | EdgeOutput output \<Rightarrow>
          (let out = emit_progress ''Loading EDGE model'' 0.35 out;
               out = emit_progress ''Running EDGE inference'' 0.5 out;
               out = emit_progress ''Projecting to 2D'' 0.75 out
           in (case project_frames output [] of
                 Inl e \<Rightarrow> (out, Inl e)
               | Inr frames \<Rightarrow> (out, Inr (if frames \<noteq> [] then Some frames else None)))))"

text \<open>\<open>except Exception: return None\<close> around the body.\<close>

definition try_edge_generation ::
  "edge_outcome \<Rightarrow> real \<Rightarrow> real list \<Rightarrow> event list \<Rightarrow> event list \<times> (py_error + keyframe list option)"
where
  "try_edge_generation eo bpm beat_times out =
     (case edge_body eo out of
        (out, Inl e) \<Rightarrow> (out, Inr None)
      | (out, Inr r) \<Rightarrow> (out, Inr r))"

section \<open>The orchestrator: generate and the main block\<close>

text \<open>
  One run's environment: the command line and what each external collaborator does
  (\<open>None\<close>: the call succeeds).  \<open>librosa\<close> is the outcome of lines 196 to 201:
  \<open>(duration, tempo, beat_times)\<close> or the exception raised there.  \<open>fl_round\<close> is the
  rounding of the machine: the float that an exact quotient or product becomes.
\<close>

record env =
  mp3_path :: string
  output_dir :: string
  isfile :: bool
  makedirs :: "py_error option"
  librosa :: "py_error + (real \<times> real \<times> real list)"
  soundfile :: "py_error + real"
  edge :: edge_outcome
  write_analysis :: "py_error option"
  write_choreo :: "py_error option"
  fl_round :: "real \<Rightarrow> real"

text \<open>Python's \<open>int\<close> of a float truncates towards zero; \<open>range(n)\<close> is empty for \<open>n \<le> 0\<close>.\<close>

definition py_int :: "real \<Rightarrow> int" where
  "py_int x = (if 0 \<le> x then \<lfloor>x\<rfloor> else \<lceil>x\<rceil>)"

text \<open>
  \<open>[i * beat_interval for i in range(int(duration / beat_interval))]\<close>, for a
  \<open>beat_interval\<close> other than zero; the quotient and the products are rounded.
\<close>

definition beat_grid :: "(real \<Rightarrow> real) \<Rightarrow> real \<Rightarrow> real \<Rightarrow> real list" where
  "beat_grid rnd beat_interval duration =
     map (\<lambda>i. rnd (real i * beat_interval))
         [0..<nat (py_int (rnd (duration / beat_interval)))]"

text \<open>
  The first \<open>try\<close> block of \<open>generate\<close>: \<open>(bpm, duration, beat_times)\<close> or the exception.
  Both divisions raise on a zero divisor.
\<close>

definition analyze_primary :: "env \<Rightarrow> py_error + (real \<times> real \<times> real list)" where
  "analyze_primary e =
     (case librosa e of
        Inl ex \<Rightarrow> Inl ex
      | Inr (duration, tempo, beat_times) \<Rightarrow>
          let bpm = tempo in
          if beat_times = [] then
            (if bpm = 0 then Inl ZeroDivisionError
             else let beat_interval = fl_round e (60 / bpm)
                  in if beat_interval = 0 then Inl ZeroDivisionError
                     else Inr (bpm, duration, beat_grid (fl_round e) beat_interval duration))
          else Inr (bpm, duration, beat_times))"

text \<open>
  Lines 195 to 215 of \<open>generate\<close>: the \<open>try\<close> block and its \<open>except\<close> branch.  There
  \<open>60.0 / 120.0\<close> is the float 0.5, with no rounding.
\<close>

definition analyze :: "env \<Rightarrow> event list \<Rightarrow> event list \<times> (real \<times> real \<times> real list)" where
  "analyze e out =
     (case analyze_primary e of
        Inr r \<Rightarrow> (out, r)
      | Inl ex \<Rightarrow>
          let out = emit_progress ''Analyzing music (fallback)'' 0.15 out;
              duration = (case soundfile e of Inr d \<Rightarrow> d | Inl ex2 \<Rightarrow> 180);
              bpm = 120;
              beat_interval = 60 / bpm
          in (out, (bpm, duration, beat_grid (fl_round e) beat_interval duration)))"

text \<open>Lines 227 to 231: the ML tier, then the sequencer when it returned \<open>None\<close>.\<close>

definition generate_frames ::
  "edge_outcome \<Rightarrow> real \<Rightarrow> real list \<Rightarrow> real \<Rightarrow> event list \<Rightarrow> event list \<times> (py_error + keyframe list)"
where
  "generate_frames eo bpm beat_times duration out =
     (case try_edge_generation eo bpm beat_times out of
        (out, Inl ex) \<Rightarrow> (out, Inl ex)
      | (out, Inr None) \<Rightarrow>
          (let out = emit_progress ''Generating moves (template mode)'' 0.4 out
           in (out, generate_template_choreo bpm beat_times duration))
      | (out, Inr (Some frames)) \<Rightarrow> (out, Inr frames))"

text \<open>\<open>os.path.basename\<close>: what follows the last slash.\<close>

definition basename :: "string \<Rightarrow> string" where
  "basename p = rev (takeWhile (\<lambda>c. c \<noteq> CHR ''/'') (rev p))"

definition generate :: "env \<Rightarrow> event list \<Rightarrow> event list \<times> (py_error + choreography)" where
  "generate e out =
     (case makedirs e of
        Some ex \<Rightarrow> (out, Inl ex)
      | None \<Rightarrow>
          (let out = emit_progress ''Analyzing music'' 0.1 out;
               (out, bpm, duration, beat_times) = analyze e out
           in (case write_analysis e of
                 Some ex \<Rightarrow> (out, Inl ex)
               | None \<Rightarrow>
                   (let out = emit_progress ''Generating moves'' 0.3 out
                    in (case generate_frames (edge e) bpm beat_times duration out of
                          (out, Inl ex) \<Rightarrow> (out, Inl ex)
                        | (out, Inr frames) \<Rightarrow>
                            (let out = emit_progress ''Saving choreography'' 0.9 out
                             in (case write_choreo e of
                                   Some ex \<Rightarrow> (out, Inl ex)
                                 | None \<Rightarrow>
                                     (emit_progress ''Done'' 1.0 out,
                                      Inr \<lparr>songMD5 = basename (output_dir e),
                                           choreo_bpm = bpm,
                                           totalDuration = duration,
                                           choreo_frames = frames\<rparr>))))))))"

text \<open>\<open>str(e)\<close> of an exception.\<close>

fun str_error :: "py_error \<Rightarrow> string" where
  "str_error ZeroDivisionError = ''float division by zero''"
| "str_error IndexError = ''list index out of range''"
| "str_error (External msg) = msg"

definition error_event :: "string \<Rightarrow> event" where
  "error_event msg = \<lparr>stage = ''Error'', progress = 0, error = Some msg\<rparr>"

text \<open>The main block: the events printed and the exit status.\<close>

definition main :: "env \<Rightarrow> event list \<times> nat" where
  "main e =
     (if \<not> isfile e then ([error_event (''File not found: '' @ mp3_path e)], 1)
      else case generate e [] of
             (out, Inl ex) \<Rightarrow> (out @ [error_event (str_error ex)], 1)
           | (out, Inr c) \<Rightarrow> (out, 0))"

section \<open>Predicates of the claims\<close>

text \<open>A pose whose joints are names of \<open>JOINT_NAMES\<close> at points of the unit square.\<close>

definition pose_ok :: "pose \<Rightarrow> bool" where
  "pose_ok p = (\<forall>(name, q) \<in> set p. name \<in> set JOINT_NAMES \<and> in_unit q)"

text \<open>
  Raw points that are tame: every coordinate is a finite float, and on each axis the
  extent, \<open>max - min\<close> as the normalizer computes it, is a finite float too.
\<close>

fun is_fin :: "pyfloat \<Rightarrow> bool" where
  "is_fin (Fin r) = True"
| "is_fin c = False"

definition tame :: "(string \<times> point) list \<Rightarrow> bool" where
  "tame visible =
     ((\<forall>(name, v) \<in> set visible. is_fin (fst v) \<and> is_fin (snd v))
      \<and> is_fin (fl_sub (py_max (map (\<lambda>(name, v). fst v) visible))
                        (py_min (map (\<lambda>(name, v). fst v) visible)))
      \<and> is_fin (fl_sub (py_max (map (\<lambda>(name, v). snd v) visible))
                        (py_min (map (\<lambda>(name, v). snd v) visible))))"

text \<open>An outcome of the ML tier whose poses, if it has any, all have tame raw points.\<close>

definition edge_tame :: "edge_outcome \<Rightarrow> bool" where
  "edge_tame eo =
     (case eo of
        EdgeOutput outp \<Rightarrow> (\<forall>(t, pose_3d) \<in> set outp. tame (visible_points pose_3d))
      | _ \<Rightarrow> True)"

text \<open>
  The ML tier returns \<open>None\<close> after it has printed an event whose progress is above the
  0.4 of the template mode, that is after ``Running EDGE inference''.
\<close>

definition ml_fails_late :: "edge_outcome \<Rightarrow> bool" where
  "ml_fails_late eo =
     (case try_edge_generation eo 0 [] [] of
        (out, r) \<Rightarrow> r = Inr None \<and> (\<exists>ev \<in> set out. 0.4 < progress ev))"
section \<open>Properties of the coordinate normalizer\<close>

subsection \<open>Floats\<close>

lemma overflow_at_ge: "2 ^ 1023 \<le> overflow_at"
proof -
  have "(2::real) ^ 970 \<le> 2 ^ 1023" by (rule power_increasing) simp_all
  moreover have "(2::real) ^ 1024 = 2 * 2 ^ 1023"
    using power_Suc[of "2::real" 1023] by simp
  ultimately show ?thesis unfolding overflow_at_def by linarith
qed

lemma overflow_at_gt_2: "2 < overflow_at"
proof -
  have "(2::real) ^ 2 \<le> 2 ^ 1023" by (rule power_increasing) simp_all
  then show ?thesis using overflow_at_ge by simp
qed

lemma fl_of_Fin: "- overflow_at < r \<Longrightarrow> r < overflow_at \<Longrightarrow> fl_of r = Fin r"
  by (simp add: fl_of_def)

lemma fl_of_small: "\<bar>r\<bar> \<le> 2 \<Longrightarrow> fl_of r = Fin r"
  using overflow_at_gt_2 by (intro fl_of_Fin) (simp_all add: abs_le_iff)

lemma fl_of_moderate: "\<bar>r\<bar> \<le> 1000 \<Longrightarrow> fl_of r = Fin r"
proof -
  have "(2::real) ^ 10 \<le> 2 ^ 1023" by (rule power_increasing) simp_all
  then have "1000 < overflow_at" using overflow_at_ge by simp
  then show "\<bar>r\<bar> \<le> 1000 \<Longrightarrow> fl_of r = Fin r"
    by (intro fl_of_Fin) (simp_all add: abs_le_iff)
qed

lemma fl_of_overflow: "overflow_at \<le> r \<Longrightarrow> fl_of r = PInf"
  by (simp add: fl_of_def)

lemma overflow_at_le: "overflow_at \<le> 2 ^ 1024"
  by (simp add: overflow_at_def)

lemma fl_of_unit: "0 \<le> r \<Longrightarrow> r \<le> 1 \<Longrightarrow> fl_of r = Fin r"
  using overflow_at_gt_2 by (intro fl_of_Fin) simp_all

lemma is_fin_fl_of: "is_fin (fl_of r) \<longleftrightarrow> - overflow_at < r \<and> r < overflow_at"
  by (auto simp: fl_of_def)

lemma fl_sub_Fin: "fl_sub (Fin a) (Fin b) = fl_of (a - b)"
  by (simp add: fl_sub_def)

lemma is_fin_iff: "is_fin c \<longleftrightarrow> (\<exists>r. c = Fin r)"
  by (cases c) simp_all

lemma fl_div_total: "b \<noteq> Fin 0 \<Longrightarrow> \<exists>q. fl_div a b = Inr q"
  by (cases a; cases b) simp_all

lemma fl_div_error: "fl_div a b = Inl e \<Longrightarrow> b = Fin 0"
  using fl_div_total[of b a] by (cases "b = Fin 0") auto

lemma or_one_nonzero: "or_one a \<noteq> Fin 0"
  by (simp add: or_one_def)

lemma fold_min_Fin:
  "fold (\<lambda>item cur. if fl_lt item cur then item else cur) (map Fin rs) (Fin r) = Fin (fold min rs r)"
proof (induction rs arbitrary: r)
  case Nil
  then show ?case by simp
next
  case (Cons a rs)
  have "(if a < r then Fin a else Fin r) = Fin (min a r)" by (simp add: min_def)
  then show ?case using Cons.IH[of "min a r"] by simp
qed

lemma fold_max_Fin:
  "fold (\<lambda>item cur. if fl_lt cur item then item else cur) (map Fin rs) (Fin r) = Fin (fold max rs r)"
proof (induction rs arbitrary: r)
  case Nil
  then show ?case by simp
next
  case (Cons a rs)
  have "(if r < a then Fin a else Fin r) = Fin (max a r)" by (simp add: max_def)
  then show ?case using Cons.IH[of "max a r"] by simp
qed

lemma py_min_Fin: "rs \<noteq> [] \<Longrightarrow> py_min (map Fin rs) = Fin (Min (set rs))"
proof (cases rs)
  case Nil then show "rs \<noteq> [] \<Longrightarrow> ?thesis" by simp
next
  case (Cons r rs')
  show ?thesis unfolding Cons using fold_min_Fin[of rs' r] Min.set_eq_fold[of r rs'] by simp
qed

lemma py_max_Fin: "rs \<noteq> [] \<Longrightarrow> py_max (map Fin rs) = Fin (Max (set rs))"
proof (cases rs)
  case Nil then show "rs \<noteq> [] \<Longrightarrow> ?thesis" by simp
next
  case (Cons r rs')
  show ?thesis unfolding Cons using fold_max_Fin[of rs' r] Max.set_eq_fold[of r rs'] by simp
qed

text \<open>One coordinate of a tame point: the quotient is exact and lies in \<open>[0,1]\<close>.\<close>

lemma norm_coord:
  assumes "lo \<le> x" "x \<le> hi" "hi - lo < overflow_at"
  shows "\<exists>q. fl_div (fl_sub (Fin x) (Fin lo)) (or_one (fl_sub (Fin hi) (Fin lo))) = Inr (Fin q)
            \<and> 0 \<le> q \<and> q \<le> 1 \<and> (x = lo \<longrightarrow> q = 0) \<and> (hi = lo \<longrightarrow> q = 0)"
proof -
  have ov: "0 < overflow_at" using overflow_at_gt_2 by simp
  have ext: "fl_sub (Fin hi) (Fin lo) = Fin (hi - lo)"
    unfolding fl_sub_Fin using assms ov by (intro fl_of_Fin) simp_all
  have num: "fl_sub (Fin x) (Fin lo) = Fin (x - lo)"
    unfolding fl_sub_Fin using assms ov by (intro fl_of_Fin) simp_all
  show ?thesis
  proof (cases "hi - lo = 0")
    case True
    with assms have x: "x - lo = 0" by simp
    have "fl_div (Fin (x - lo)) (or_one (Fin (hi - lo))) = Inr (Fin 0)"
      using True x by (simp add: or_one_def fl_of_unit)
    then show ?thesis unfolding ext num by simp
  next
    case False
    with assms have pos: "0 < hi - lo" by simp
    have q: "0 \<le> (x - lo) / (hi - lo)" "(x - lo) / (hi - lo) \<le> 1"
      using assms pos by simp_all
    then have "fl_of ((x - lo) / (hi - lo)) = Fin ((x - lo) / (hi - lo))"
      by (rule fl_of_unit)
    then have "fl_div (Fin (x - lo)) (or_one (Fin (hi - lo))) = Inr (Fin ((x - lo) / (hi - lo)))"
      using False by (simp add: or_one_def)
    then show ?thesis unfolding ext num using q False by auto
  qed
qed

subsection \<open>The two loops\<close>

lemma update_fresh: "k \<notin> fst ` set al \<Longrightarrow> AList.update k v al = al @ [(k, v)]"
  by (induction al) auto

lemma collect_visible_Inr:
  assumes "collect_visible items js acc = Inr vis"
    and "distinct (map snd items)" and "fst ` set acc \<inter> snd ` set items = {}"
  shows "vis = acc @ map (raw_point js) (filter (\<lambda>(k, n). k < length js) items)"
  using assms
proof (induction items js acc rule: collect_visible.induct)
  case (1 js acc)
  then show ?case by simp
next
  case (2 k n rest js acc)
  show ?case
  proof (cases "k < length js")
    case False
    with 2 show ?thesis by auto
  next
    case True
    with "2.prems"(1) have len: "\<not> length (js ! k) < 2"
      by (auto simp: Let_def split: if_splits)
    define v where "v = (js ! k ! 0, js ! k ! 1)"
    from "2.prems"(3) have fresh: "n \<notin> fst ` set acc" by auto
    have upd: "AList.update n v acc = acc @ [(n, v)]"
      by (rule update_fresh[OF fresh])
    from "2.prems"(1) True len
    have rec: "collect_visible rest js (AList.update n (js ! k ! 0, js ! k ! 1) acc) = Inr vis"
      by (simp add: Let_def)
    have d: "distinct (map snd rest)" using "2.prems"(2) by simp
    have disj: "fst ` set (AList.update n (js ! k ! 0, js ! k ! 1) acc) \<inter> snd ` set rest = {}"
      using "2.prems"(2,3) upd unfolding v_def by auto
    have "vis = AList.update n (js ! k ! 0, js ! k ! 1) acc
                @ map (raw_point js) (filter (\<lambda>(k, n). k < length js) rest)"
      by (rule "2.IH"(1)[OF True refl len rec d disj])
    also have "AList.update n (js ! k ! 0, js ! k ! 1) acc = acc @ [raw_point js (k, n)]"
      using upd unfolding v_def raw_point_def by simp
    finally show ?thesis using True by simp
  qed
qed

lemma collect_visible_total:
  assumes "\<forall>(k, n) \<in> set items. k < length js \<longrightarrow> 2 \<le> length (js ! k)"
  shows "\<exists>vis. collect_visible items js acc = Inr vis"
  using assms
  by (induction items js acc rule: collect_visible.induct) (auto simp: Let_def)

lemma collect_visible_error:
  "collect_visible items js acc = Inl e \<Longrightarrow> e = IndexError"
  by (induction items js acc rule: collect_visible.induct) (auto simp: Let_def split: if_splits)

lemma collect_visible_none:
  assumes "\<forall>(k, n) \<in> set items. \<not> k < length js"
  shows "collect_visible items js acc = Inr acc"
  using assms
  by (induction items js acc rule: collect_visible.induct) auto

lemma distinct_SMPL_names: "distinct (map snd SMPL_TO_JOINT)"
  by (simp add: SMPL_TO_JOINT_def)

lemma collect_visible_points:
  "collect_visible SMPL_TO_JOINT joints_3d [] = Inr visible \<Longrightarrow> visible = visible_points joints_3d"
  using collect_visible_Inr[of SMPL_TO_JOINT joints_3d "[]" visible] distinct_SMPL_names
  by (simp add: visible_points_def)

lemma distinct_visible_points: "distinct (map fst (visible_points joints_3d))"
proof -
  have "map fst (visible_points joints_3d)
        = map snd (filter (\<lambda>(smpl_idx, name). smpl_idx < length joints_3d) SMPL_TO_JOINT)"
    by (simp add: visible_points_def raw_point_def case_prod_unfold comp_def)
  then show ?thesis using distinct_SMPL_names by (simp add: distinct_map_filter)
qed

text \<open>
  The second loop never raises once both ranges are other than zero, and it gives each
  visible joint its two quotients, in the order of \<open>visible\<close>.
\<close>

lemma normalize_points_Inr:
  assumes "range_x \<noteq> Fin 0" and "range_y \<noteq> Fin 0"
    and "distinct (map fst vis)" and "fst ` set acc \<inter> fst ` set vis = {}"
  shows "normalize_points vis min_x range_x min_y range_y acc
           = Inr (acc @ map (\<lambda>(name, (x, y)).
                    (name, (projr (fl_div (fl_sub x min_x) range_x),
                            fl_sub (Fin 1) (projr (fl_div (fl_sub y min_y) range_y))))) vis)"
  using assms(3,4)
proof (induction vis arbitrary: acc)
  case Nil
  then show ?case by simp
next
  case (Cons p vis)
  obtain name x y where p: "p = (name, (x, y))" by (cases p) auto
  obtain nx where nx: "fl_div (fl_sub x min_x) range_x = Inr nx"
    using fl_div_total[OF assms(1)] by blast
  obtain q where q: "fl_div (fl_sub y min_y) range_y = Inr q"
    using fl_div_total[OF assms(2)] by blast
  from Cons.prems(2) have fresh: "name \<notin> fst ` set acc" by (auto simp: p)
  have upd: "AList.update name (nx, fl_sub (Fin 1) q) acc = acc @ [(name, (nx, fl_sub (Fin 1) q))]"
    by (rule update_fresh[OF fresh])
  have d: "distinct (map fst vis)" using Cons.prems(1) by simp
  have disj: "fst ` set (acc @ [(name, (nx, fl_sub (Fin 1) q))]) \<inter> fst ` set vis = {}"
    using Cons.prems by (auto simp: p)
  show ?case
    using Cons.IH[OF d disj] by (simp add: p nx q upd)
qed

lemma project_closed:
  assumes "collect_visible SMPL_TO_JOINT joints_3d [] = Inr vis"
  shows "project_smpl_to_2d joints_3d
    = Inr (map (\<lambda>(name, (x, y)).
              (name,
               (projr (fl_div (fl_sub x (py_min (map (\<lambda>(name, v). fst v) vis)))
                        (or_one (fl_sub (py_max (map (\<lambda>(name, v). fst v) vis))
                                        (py_min (map (\<lambda>(name, v). fst v) vis))))),
                fl_sub (Fin 1)
                  (projr (fl_div (fl_sub y (py_min (map (\<lambda>(name, v). snd v) vis)))
                        (or_one (fl_sub (py_max (map (\<lambda>(name, v). snd v) vis))
                                        (py_min (map (\<lambda>(name, v). snd v) vis)))))))))
            vis)"
proof (cases "vis = []")
  case True
  with assms show ?thesis by (simp add: project_smpl_to_2d_def)
next
  case False
  have vis: "vis = visible_points joints_3d" by (rule collect_visible_points[OF assms])
  have d: "distinct (map fst vis)" unfolding vis by (rule distinct_visible_points)
  have "project_smpl_to_2d joints_3d
      = normalize_points vis (py_min (map (\<lambda>(name, v). fst v) vis))
          (or_one (fl_sub (py_max (map (\<lambda>(name, v). fst v) vis))
                          (py_min (map (\<lambda>(name, v). fst v) vis))))
          (py_min (map (\<lambda>(name, v). snd v) vis))
          (or_one (fl_sub (py_max (map (\<lambda>(name, v). snd v) vis))
                          (py_min (map (\<lambda>(name, v). snd v) vis)))) []"
    using assms False by (simp add: project_smpl_to_2d_def Let_def)
  also have "\<dots> = Inr ([] @ map (\<lambda>(name, (x, y)).
              (name,
               (projr (fl_div (fl_sub x (py_min (map (\<lambda>(name, v). fst v) vis)))
                        (or_one (fl_sub (py_max (map (\<lambda>(name, v). fst v) vis))
                                        (py_min (map (\<lambda>(name, v). fst v) vis))))),
                fl_sub (Fin 1)
                  (projr (fl_div (fl_sub y (py_min (map (\<lambda>(name, v). snd v) vis)))
                        (or_one (fl_sub (py_max (map (\<lambda>(name, v). snd v) vis))
                                        (py_min (map (\<lambda>(name, v). snd v) vis)))))))))
            vis)"
    by (rule normalize_points_Inr[OF or_one_nonzero or_one_nonzero d]) simp
  finally show ?thesis by simp
qed

lemma project_error:
  assumes "project_smpl_to_2d joints_3d = Inl e"
  shows "e = IndexError"
proof (cases "collect_visible SMPL_TO_JOINT joints_3d []")
  case (Inl ex)
  with assms collect_visible_error[OF Inl] show ?thesis
    by (simp add: project_smpl_to_2d_def)
next
  case (Inr vis)
  from project_closed[OF Inr] assms show ?thesis by simp
qed

lemma project_total:
  assumes "\<forall>(k, n) \<in> set SMPL_TO_JOINT. k < length joints_3d \<longrightarrow> 2 \<le> length (joints_3d ! k)"
  shows "\<exists>m. project_smpl_to_2d joints_3d = Inr m"
proof -
  from collect_visible_total[OF assms] obtain vis
    where vis: "collect_visible SMPL_TO_JOINT joints_3d [] = Inr vis" by blast
  from project_closed[OF vis] show ?thesis by blast
qed

lemma project_empty:
  assumes "\<forall>(k, n) \<in> set SMPL_TO_JOINT. \<not> k < length joints_3d"
  shows "project_smpl_to_2d joints_3d = Inr []"
  by (simp add: project_smpl_to_2d_def collect_visible_none[OF assms])

text \<open>The result of the normalizer, in terms of the raw points.\<close>

lemma project_visible:
  assumes "project_smpl_to_2d joints_3d = Inr m"
  shows "m = map (\<lambda>(name, (x, y)).
              (name,
               (projr (fl_div (fl_sub x (py_min (map (\<lambda>(name, v). fst v) (visible_points joints_3d))))
                        (or_one (fl_sub (py_max (map (\<lambda>(name, v). fst v) (visible_points joints_3d)))
                                        (py_min (map (\<lambda>(name, v). fst v) (visible_points joints_3d)))))),
                fl_sub (Fin 1)
                  (projr (fl_div (fl_sub y (py_min (map (\<lambda>(name, v). snd v) (visible_points joints_3d))))
                        (or_one (fl_sub (py_max (map (\<lambda>(name, v). snd v) (visible_points joints_3d)))
                                        (py_min (map (\<lambda>(name, v). snd v) (visible_points joints_3d))))))))))
            (visible_points joints_3d)"
proof (cases "collect_visible SMPL_TO_JOINT joints_3d []")
  case (Inl ex)
  with assms show ?thesis by (simp add: project_smpl_to_2d_def)
next
  case (Inr vis)
  have vis: "vis = visible_points joints_3d" by (rule collect_visible_points[OF Inr])
  from project_closed[OF Inr] assms show ?thesis unfolding vis by simp
qed

lemma project_keys:
  assumes "project_smpl_to_2d joints_3d = Inr m"
  shows "map fst m = map fst (visible_points joints_3d)"
  by (subst project_visible[OF assms]) (simp add: case_prod_unfold comp_def)

subsection \<open>Tame raw points\<close>

lemma all_fin_map: "\<forall>c \<in> set cs. is_fin c \<Longrightarrow> \<exists>rs. cs = map Fin rs"
proof (induction cs)
  case Nil
  then show ?case by simp
next
  case (Cons c cs)
  then obtain rs r where "cs = map Fin rs" "c = Fin r" by (auto simp: is_fin_iff)
  then have "c # cs = map Fin (r # rs)" by simp
  then show ?case by (rule exI[of _ "r # rs"])
qed

text \<open>One axis of tame points: every quotient is a number of \<open>[0,1]\<close>.\<close>

lemma tame_axis:
  assumes fin: "\<forall>c \<in> set cs. is_fin c"
    and ext: "is_fin (fl_sub (py_max cs) (py_min cs))"
    and mem: "c \<in> set cs"
  shows "\<exists>q. fl_div (fl_sub c (py_min cs)) (or_one (fl_sub (py_max cs) (py_min cs))) = Inr (Fin q)
            \<and> 0 \<le> q \<and> q \<le> 1 \<and> (c = py_min cs \<longrightarrow> q = 0) \<and> (py_max cs = py_min cs \<longrightarrow> q = 0)"
proof -
  from all_fin_map[OF fin] obtain rs where cs: "cs = map Fin rs" by blast
  from mem have ne: "rs \<noteq> []" by (auto simp: cs)
  from mem obtain r where c: "c = Fin r" and r: "r \<in> set rs" by (auto simp: cs)
  have mn: "py_min cs = Fin (Min (set rs))" unfolding cs by (rule py_min_Fin[OF ne])
  have mx: "py_max cs = Fin (Max (set rs))" unfolding cs by (rule py_max_Fin[OF ne])
  have lo: "Min (set rs) \<le> r" using r by simp
  have hi: "r \<le> Max (set rs)" using r by simp
  from ext have small: "Max (set rs) - Min (set rs) < overflow_at"
    unfolding mn mx fl_sub_Fin by (simp add: is_fin_fl_of)
  from norm_coord[OF lo hi small] show ?thesis unfolding mn mx c by auto
qed

lemma constant_axis:
  assumes "\<forall>c \<in> set cs. c = Fin r" and "cs \<noteq> []"
  shows "py_max cs = py_min cs"
proof -
  define rs where "rs = replicate (length cs) r"
  have cs: "cs = map Fin rs"
    unfolding rs_def using assms(1) by (induction cs) auto
  have rs: "set rs \<subseteq> {r}" by (auto simp: rs_def)
  from assms(2) have ne: "rs \<noteq> []" by (auto simp: cs)
  then have "set rs = {r}" using rs by (cases rs) auto
  then show ?thesis unfolding cs py_min_Fin[OF ne] py_max_Fin[OF ne] by simp
qed

text \<open>Both coordinates of a joint of the result, for tame raw points.\<close>

lemma project_tame_point:
  assumes res: "project_smpl_to_2d joints_3d = Inr m"
    and tame: "tame (visible_points joints_3d)"
    and mem: "(name, (x, y)) \<in> set (visible_points joints_3d)"
  shows "\<exists>qx qy. (name, (Fin qx, Fin (1 - qy))) \<in> set m
           \<and> 0 \<le> qx \<and> qx \<le> 1 \<and> 0 \<le> qy \<and> qy \<le> 1
           \<and> (x = py_min (map (\<lambda>(name, v). fst v) (visible_points joints_3d)) \<longrightarrow> qx = 0)
           \<and> (py_max (map (\<lambda>(name, v). fst v) (visible_points joints_3d))
                = py_min (map (\<lambda>(name, v). fst v) (visible_points joints_3d)) \<longrightarrow> qx = 0)
           \<and> (py_max (map (\<lambda>(name, v). snd v) (visible_points joints_3d))
                = py_min (map (\<lambda>(name, v). snd v) (visible_points joints_3d)) \<longrightarrow> qy = 0)"
proof -
  let ?vis = "visible_points joints_3d"
  let ?xs = "map (\<lambda>(name, v). fst v) ?vis"
  let ?ys = "map (\<lambda>(name, v). snd v) ?vis"
  from tame have fx: "\<forall>c \<in> set ?xs. is_fin c" and fy: "\<forall>c \<in> set ?ys. is_fin c"
    and ex: "is_fin (fl_sub (py_max ?xs) (py_min ?xs))"
    and ey: "is_fin (fl_sub (py_max ?ys) (py_min ?ys))"
    by (auto simp: tame_def)
  from mem have mx: "x \<in> set ?xs" and my: "y \<in> set ?ys" by force+
  from tame_axis[OF fx ex mx] obtain qx
    where qx: "fl_div (fl_sub x (py_min ?xs)) (or_one (fl_sub (py_max ?xs) (py_min ?xs))) = Inr (Fin qx)"
      and bx: "0 \<le> qx" "qx \<le> 1" "x = py_min ?xs \<longrightarrow> qx = 0" "py_max ?xs = py_min ?xs \<longrightarrow> qx = 0"
    by blast
  from tame_axis[OF fy ey my] obtain qy
    where qy: "fl_div (fl_sub y (py_min ?ys)) (or_one (fl_sub (py_max ?ys) (py_min ?ys))) = Inr (Fin qy)"
      and bndy: "0 \<le> qy" "qy \<le> 1" "py_max ?ys = py_min ?ys \<longrightarrow> qy = 0"
    by blast
  have flip: "fl_sub (Fin 1) (Fin qy) = Fin (1 - qy)"
    unfolding fl_sub_Fin using bndy by (intro fl_of_unit) simp_all
  have "(name, (Fin qx, Fin (1 - qy))) \<in> set m"
    by (subst project_visible[OF res], use mem qx qy flip in force)
  with bx bndy show ?thesis by blast
qed

lemma project_tame_unit:
  assumes res: "project_smpl_to_2d joints_3d = Inr m"
    and tame: "tame (visible_points joints_3d)"
    and mem: "(name, p) \<in> set m"
  shows "in_unit p"
proof -
  have d: "distinct (map fst m)"
    by (simp only: project_keys[OF res] distinct_visible_points)
  from mem have "name \<in> set (map fst (visible_points joints_3d))"
    unfolding project_keys[OF res, symmetric] by force
  then obtain x y where v: "(name, (x, y)) \<in> set (visible_points joints_3d)" by auto
  from project_tame_point[OF res tame v] obtain qx qy
    where q: "(name, (Fin qx, Fin (1 - qy))) \<in> set m"
      and b: "0 \<le> qx" "qx \<le> 1" "0 \<le> qy" "qy \<le> 1" by blast
  from d mem q have "p = (Fin qx, Fin (1 - qy))"
    by (meson eq_key_imp_eq_value)
  then show ?thesis using b by (simp add: in_unit_def)
qed

lemma project_tame_entry:
  assumes res: "project_smpl_to_2d joints_3d = Inr m"
    and tame: "tame (visible_points joints_3d)"
    and mem: "(name, p) \<in> set m"
  shows "\<exists>x y qx qy. (name, (x, y)) \<in> set (visible_points joints_3d)
           \<and> p = (Fin qx, Fin (1 - qy))
           \<and> (py_max (map (\<lambda>(name, v). fst v) (visible_points joints_3d))
                = py_min (map (\<lambda>(name, v). fst v) (visible_points joints_3d)) \<longrightarrow> qx = 0)
           \<and> (py_max (map (\<lambda>(name, v). snd v) (visible_points joints_3d))
                = py_min (map (\<lambda>(name, v). snd v) (visible_points joints_3d)) \<longrightarrow> qy = 0)"
proof -
  have d: "distinct (map fst m)"
    by (simp only: project_keys[OF res] distinct_visible_points)
  from mem have "name \<in> set (map fst (visible_points joints_3d))"
    unfolding project_keys[OF res, symmetric] by force
  then obtain x y where v: "(name, (x, y)) \<in> set (visible_points joints_3d)" by auto
  from project_tame_point[OF res tame v] obtain qx qy
    where q: "(name, (Fin qx, Fin (1 - qy))) \<in> set m"
      and f: "py_max (map (\<lambda>(name, v). fst v) (visible_points joints_3d))
                = py_min (map (\<lambda>(name, v). fst v) (visible_points joints_3d)) \<longrightarrow> qx = 0"
        "py_max (map (\<lambda>(name, v). snd v) (visible_points joints_3d))
                = py_min (map (\<lambda>(name, v). snd v) (visible_points joints_3d)) \<longrightarrow> qy = 0"
    by blast
  from d mem q have "p = (Fin qx, Fin (1 - qy))"
    by (meson eq_key_imp_eq_value)
  with v f show ?thesis by blast
qed

lemma project_min_x:
  assumes res: "project_smpl_to_2d joints_3d = Inr m"
    and tame: "tame (visible_points joints_3d)"
    and mem: "(name, (x, y)) \<in> set (visible_points joints_3d)"
    and least: "x = py_min (map (\<lambda>(name, v). fst v) (visible_points joints_3d))"
  shows "\<exists>y'. map_of m name = Some (Fin 0, y')"
proof -
  from project_tame_point[OF res tame mem] least obtain qy
    where "(name, (Fin 0, Fin (1 - qy))) \<in> set m" by blast
  moreover have "distinct (map fst m)"
    by (simp only: project_keys[OF res] distinct_visible_points)
  ultimately show ?thesis by auto
qed

lemma tame_flat:
  assumes tame: "tame vis" and flat: "\<forall>c \<in> set cs. c = a" and ne: "cs \<noteq> []"
    and fin: "\<forall>c \<in> set cs. is_fin c"
  shows "py_max cs = py_min cs"
proof -
  from ne obtain c where "c \<in> set cs" by (cases cs) auto
  with flat fin obtain r where "a = Fin r" by (auto simp: is_fin_iff)
  with flat show ?thesis using constant_axis[OF _ ne] by blast
qed

lemma project_flat_x:
  assumes res: "project_smpl_to_2d joints_3d = Inr m"
    and tame: "tame (visible_points joints_3d)"
    and flat: "\<forall>(n, p) \<in> set (visible_points joints_3d). fst p = c"
    and mem: "(name, q) \<in> set m"
  shows "fst q = Fin 0"
proof -
  let ?xs = "map (\<lambda>(name, v). fst v) (visible_points joints_3d)"
  from project_tame_entry[OF res tame mem] obtain x y qx qy
    where v: "(name, (x, y)) \<in> set (visible_points joints_3d)" and q: "q = (Fin qx, Fin (1 - qy))"
      and f: "py_max ?xs = py_min ?xs \<longrightarrow> qx = 0" by blast
  from v have ne: "?xs \<noteq> []" by auto
  have all: "\<forall>a \<in> set ?xs. a = c" using flat by auto
  have fin: "\<forall>a \<in> set ?xs. is_fin a" using tame by (auto simp: tame_def)
  from tame_flat[OF tame all ne fin] f show ?thesis by (simp add: q)
qed

lemma project_flat_y:
  assumes res: "project_smpl_to_2d joints_3d = Inr m"
    and tame: "tame (visible_points joints_3d)"
    and flat: "\<forall>(n, p) \<in> set (visible_points joints_3d). snd p = c"
    and mem: "(name, q) \<in> set m"
  shows "snd q = Fin 1"
proof -
  let ?ys = "map (\<lambda>(name, v). snd v) (visible_points joints_3d)"
  from project_tame_entry[OF res tame mem] obtain x y qx qy
    where v: "(name, (x, y)) \<in> set (visible_points joints_3d)" and q: "q = (Fin qx, Fin (1 - qy))"
      and f: "py_max ?ys = py_min ?ys \<longrightarrow> qy = 0" by blast
  from v have ne: "?ys \<noteq> []" by auto
  have all: "\<forall>a \<in> set ?ys. a = c" using flat by auto
  have fin: "\<forall>a \<in> set ?ys. is_fin a" using tame by (auto simp: tame_def)
  from tame_flat[OF tame all ne fin] f show ?thesis by (simp add: q)
qed

text \<open>
  C1, as the code has it.  With no mapped joint inside the array the normalizer returns
  the empty mapping, and no error.  It never raises a division error, since an extent
  of zero is replaced by 1; it returns a mapping, whose keys are the visible joints,
  whenever every mapped row inside the array has its two coordinates.  When the raw
  points are tame (finite coordinates, and extents that do not overflow): every
  coordinate of every joint of the result is in \<open>[0,1]\<close>; a joint whose raw X is the least
  one has output X equal to 0; and on an axis on which all raw points agree every output
  X is 0, every output Y is 1.
\<close>

theorem project_smpl_to_2d_normalizes:
  "((\<forall>(smpl_idx, name) \<in> set SMPL_TO_JOINT. \<not> smpl_idx < length joints_3d)
      \<longrightarrow> project_smpl_to_2d joints_3d = Inr [])
   \<and> project_smpl_to_2d joints_3d \<noteq> Inl ZeroDivisionError
   \<and> ((\<forall>(smpl_idx, name) \<in> set SMPL_TO_JOINT.
          smpl_idx < length joints_3d \<longrightarrow> 2 \<le> length (joints_3d ! smpl_idx))
      \<longrightarrow> (\<exists>m. project_smpl_to_2d joints_3d = Inr m))
   \<and> (project_smpl_to_2d joints_3d = Inr m
      \<longrightarrow> map fst m = map fst (visible_points joints_3d))
   \<and> (project_smpl_to_2d joints_3d = Inr m \<and> tame (visible_points joints_3d) \<longrightarrow>
        (\<forall>(name, p) \<in> set m. in_unit p)
      \<and> (\<forall>(name, (x, y)) \<in> set (visible_points joints_3d).
            x = py_min (map (\<lambda>(name, v). fst v) (visible_points joints_3d))
            \<longrightarrow> (\<exists>y'. map_of m name = Some (Fin 0, y')))
      \<and> ((\<exists>c. \<forall>(n, p) \<in> set (visible_points joints_3d). fst p = c)
            \<longrightarrow> (\<forall>(name, q) \<in> set m. fst q = Fin 0))
      \<and> ((\<exists>c. \<forall>(n, p) \<in> set (visible_points joints_3d). snd p = c)
            \<longrightarrow> (\<forall>(name, q) \<in> set m. snd q = Fin 1)))"
proof (intro conjI impI)
  assume "\<forall>(smpl_idx, name) \<in> set SMPL_TO_JOINT. \<not> smpl_idx < length joints_3d"
  then show "project_smpl_to_2d joints_3d = Inr []" by (rule project_empty)
next
  show "project_smpl_to_2d joints_3d \<noteq> Inl ZeroDivisionError"
    using project_error[of joints_3d ZeroDivisionError] by auto
next
  assume "\<forall>(smpl_idx, name) \<in> set SMPL_TO_JOINT.
          smpl_idx < length joints_3d \<longrightarrow> 2 \<le> length (joints_3d ! smpl_idx)"
  then show "\<exists>m. project_smpl_to_2d joints_3d = Inr m" by (rule project_total)
next
  assume res: "project_smpl_to_2d joints_3d = Inr m"
  show "map fst m = map fst (visible_points joints_3d)" by (rule project_keys[OF res])
next
  assume "project_smpl_to_2d joints_3d = Inr m \<and> tame (visible_points joints_3d)"
  then have res: "project_smpl_to_2d joints_3d = Inr m"
    and tame: "tame (visible_points joints_3d)" by simp_all
  show "\<forall>(name, p) \<in> set m. in_unit p" using project_tame_unit[OF res tame] by blast
  show "\<forall>(name, (x, y)) \<in> set (visible_points joints_3d).
            x = py_min (map (\<lambda>(name, v). fst v) (visible_points joints_3d))
            \<longrightarrow> (\<exists>y'. map_of m name = Some (Fin 0, y'))"
    using project_min_x[OF res tame] by blast
  { assume "\<exists>c. \<forall>(n, p) \<in> set (visible_points joints_3d). fst p = c"
    then show "\<forall>(name, q) \<in> set m. fst q = Fin 0" using project_flat_x[OF res tame] by blast }
  { assume "\<exists>c. \<forall>(n, p) \<in> set (visible_points joints_3d). snd p = c"
    then show "\<forall>(name, q) \<in> set m. snd q = Fin 1" using project_flat_y[OF res tame] by blast }
qed

lemma project_example:
  "project_smpl_to_2d [[Fin 0, Fin 0, Fin 0], [Fin 1, Fin 2, Fin 0], [Fin 3, Fin 5, Fin 0]]
     = Inr [(''left_hip'', (Fin 0, Fin 1)), (''right_hip'', (Fin 1, Fin 0))]"
  by (simp add: project_smpl_to_2d_def SMPL_TO_JOINT_def or_one_def fl_sub_Fin fl_of_moderate Let_def)

lemma visible_example:
  "visible_points [[Fin 0, Fin 0, Fin 0], [Fin 1, Fin 2, Fin 0], [Fin 3, Fin 5, Fin 0]]
     = [(''left_hip'', (Fin 1, Fin 2)), (''right_hip'', (Fin 3, Fin 5))]"
  by (simp add: visible_points_def raw_point_def SMPL_TO_JOINT_def)

lemma tame_example:
  "tame [(''left_hip'', (Fin 1, Fin 2)), (''right_hip'', (Fin 3, Fin 5))]"
  by (simp add: tame_def fl_sub_Fin fl_of_moderate)

lemma project_repeated:
  "project_smpl_to_2d [[Fin 0, Fin 0, Fin 0], [Fin 4, Fin 7, Fin 0], [Fin 4, Fin 7, Fin 0]]
     = Inr [(''left_hip'', (Fin 0, Fin 1)), (''right_hip'', (Fin 0, Fin 1))]"
  by (simp add: project_smpl_to_2d_def SMPL_TO_JOINT_def or_one_def fl_sub_Fin fl_of_moderate Let_def)

lemma visible_repeated:
  "visible_points [[Fin 0, Fin 0, Fin 0], [Fin 4, Fin 7, Fin 0], [Fin 4, Fin 7, Fin 0]]
     = [(''left_hip'', (Fin 4, Fin 7)), (''right_hip'', (Fin 4, Fin 7))]"
  by (simp add: visible_points_def raw_point_def SMPL_TO_JOINT_def)

lemma tame_repeated:
  "tame [(''left_hip'', (Fin 4, Fin 7)), (''right_hip'', (Fin 4, Fin 7))]"
  by (simp add: tame_def fl_sub_Fin fl_of_moderate)

theorem project_smpl_to_2d_normalizes_witness:
  "project_smpl_to_2d [[Fin 9, Fin 9, Fin 9]] = Inr []
   \<and> project_smpl_to_2d [[Fin 0, Fin 0, Fin 0], [Fin 1, Fin 2, Fin 0], [Fin 3, Fin 5, Fin 0]]
       = Inr [(''left_hip'', (Fin 0, Fin 1)), (''right_hip'', (Fin 1, Fin 0))]
   \<and> tame (visible_points [[Fin 0, Fin 0, Fin 0], [Fin 1, Fin 2, Fin 0], [Fin 3, Fin 5, Fin 0]])
   \<and> in_unit (Fin 0, Fin 1) \<and> in_unit (Fin 1, Fin 0)
   \<and> (\<exists>y'. map_of [(''left_hip'', (Fin 0, Fin 1)), (''right_hip'', (Fin 1, Fin 0))] ''left_hip''
             = Some (Fin 0, y'))
   \<and> project_smpl_to_2d [[Fin 0, Fin 0, Fin 0], [Fin 4, Fin 7, Fin 0], [Fin 4, Fin 7, Fin 0]]
       = Inr [(''left_hip'', (Fin 0, Fin 1)), (''right_hip'', (Fin 0, Fin 1))]"
proof -
  have none: "\<forall>(smpl_idx, name) \<in> set SMPL_TO_JOINT. \<not> smpl_idx < length [[Fin 9, Fin 9, Fin 9]]"
    by (simp add: SMPL_TO_JOINT_def)
  have e: "project_smpl_to_2d [[Fin 9, Fin 9, Fin 9]] = Inr []"
    using project_smpl_to_2d_normalizes[of "[[Fin 9, Fin 9, Fin 9]]" "[]"] none by blast
  have t1: "tame (visible_points [[Fin 0, Fin 0, Fin 0], [Fin 1, Fin 2, Fin 0], [Fin 3, Fin 5, Fin 0]])"
    by (simp only: visible_example tame_example)
  have least: "Fin 1 = py_min (map (\<lambda>(name, v). fst v)
      (visible_points [[Fin 0, Fin 0, Fin 0], [Fin 1, Fin 2, Fin 0], [Fin 3, Fin 5, Fin 0]]))"
    by (simp add: visible_example)
  have a: "(\<forall>(name, p) \<in> set [(''left_hip'', (Fin 0, Fin 1)), (''right_hip'', (Fin 1, Fin 0))]. in_unit p)
       \<and> (\<exists>y'. map_of [(''left_hip'', (Fin 0, Fin 1)), (''right_hip'', (Fin 1, Fin 0))] ''left_hip''
             = Some (Fin 0, y'))"
    using project_smpl_to_2d_normalizes[of
        "[[Fin 0, Fin 0, Fin 0], [Fin 1, Fin 2, Fin 0], [Fin 3, Fin 5, Fin 0]]"
        "[(''left_hip'', (Fin 0, Fin 1)), (''right_hip'', (Fin 1, Fin 0))]"] project_example t1 least
    by (simp add: visible_example)
  have t2: "tame (visible_points [[Fin 0, Fin 0, Fin 0], [Fin 4, Fin 7, Fin 0], [Fin 4, Fin 7, Fin 0]])"
    by (simp only: visible_repeated tame_repeated)
  have flat: "(\<exists>c. \<forall>(n, p) \<in> set (visible_points [[Fin 0, Fin 0, Fin 0], [Fin 4, Fin 7, Fin 0], [Fin 4, Fin 7, Fin 0]]). fst p = c)"
    "(\<exists>c. \<forall>(n, p) \<in> set (visible_points [[Fin 0, Fin 0, Fin 0], [Fin 4, Fin 7, Fin 0], [Fin 4, Fin 7, Fin 0]]). snd p = c)"
    by (simp_all add: visible_repeated)
  have b: "\<forall>(name, q) \<in> set [(''left_hip'', (Fin 0, Fin 1)), (''right_hip'', (Fin 0, Fin 1))].
         fst q = Fin 0 \<and> snd q = Fin 1"
    using project_smpl_to_2d_normalizes[of
        "[[Fin 0, Fin 0, Fin 0], [Fin 4, Fin 7, Fin 0], [Fin 4, Fin 7, Fin 0]]"
        "[(''left_hip'', (Fin 0, Fin 1)), (''right_hip'', (Fin 0, Fin 1))]"] project_repeated t2 flat
    by simp
  show ?thesis using e a b t1 project_example project_repeated by simp
qed

lemma fl_of_double_top: "fl_of (2 ^ 1023 - - (2 ^ 1023)) = PInf"
proof -
  have "(2::real) ^ 1024 = 2 * 2 ^ 1023" using power_Suc[of "2::real" 1023] by simp
  then have "overflow_at \<le> 2 ^ 1023 - - (2 ^ 1023)" using overflow_at_le by simp
  then show ?thesis by (rule fl_of_overflow)
qed

lemma fl_of_zero: "fl_of 0 = Fin 0" and fl_of_one: "fl_of 1 = Fin 1"
  by (simp_all add: fl_of_unit)

lemma top_less: "- ((2::real) ^ 1023) < 2 ^ 1023"
proof -
  have "(0::real) < 2 ^ 1023" by simp
  then show ?thesis by linarith
qed

lemma project_smpl_to_2d_overflow:
  "project_smpl_to_2d
      [[Fin 0, Fin 0, Fin 0], [Fin (2 ^ 1023), Fin 0, Fin 0], [Fin (- (2 ^ 1023)), Fin 0, Fin 0]]
     = Inr [(''left_hip'', (NaN, Fin 1)), (''right_hip'', (Fin 0, Fin 1))]"
proof -
  define B :: real where "B = 2 ^ 1023"
  have lt: "- B < B" unfolding B_def by (rule top_less)
  have big: "fl_of (B - - B) = PInf" unfolding B_def by (rule fl_of_double_top)
  have zero: "fl_of (- B - - B) = Fin 0" "fl_of (0 - 0) = Fin 0" "fl_of (1 - 0) = Fin 1"
    "fl_of (0 / 1) = Fin 0"
    by (simp_all add: fl_of_zero fl_of_one)
  have "project_smpl_to_2d
      [[Fin 0, Fin 0, Fin 0], [Fin B, Fin 0, Fin 0], [Fin (- B), Fin 0, Fin 0]]
     = Inr [(''left_hip'', (NaN, Fin 1)), (''right_hip'', (Fin 0, Fin 1))]"
    using lt big zero
    by (simp add: project_smpl_to_2d_def SMPL_TO_JOINT_def or_one_def fl_sub_Fin Let_def)
  then show ?thesis unfolding B_def .
qed

text \<open>
  C1, as the claim has it, fails on finite floats whose extent overflows: with raw X of
  \<open>2^1023\<close> and \<open>- 2^1023\<close> the extent is infinite, and the joint with the larger X
  gets the output X \<open>inf / inf\<close>, NaN, which is not in \<open>[0,1]\<close>.
\<close>

theorem project_smpl_to_2d_normalizes_counterexample:
  "project_smpl_to_2d
      [[Fin 0, Fin 0, Fin 0], [Fin (2 ^ 1023), Fin 0, Fin 0], [Fin (- (2 ^ 1023)), Fin 0, Fin 0]]
     = Inr [(''left_hip'', (NaN, Fin 1)), (''right_hip'', (Fin 0, Fin 1))]
   \<and> \<not> in_unit (NaN, Fin 1)"
proof (rule conjI)
  show "\<not> in_unit (NaN, Fin 1)" by (simp add: in_unit_def)
qed (rule project_smpl_to_2d_overflow)
section \<open>Properties of the procedural sequencer\<close>

lemma template_loop_append:
  "template_loop i beat_times duration frames = frames @ template_loop i beat_times duration []"
proof (induction beat_times arbitrary: i frames)
  case Nil
  then show ?case by simp
next
  case (Cons b bs)
  show ?case
    using Cons.IH[of "Suc i" "frames @ [template_frame i b]"] Cons.IH[of "Suc i" "[template_frame i b]"]
    by simp
qed

text \<open>The loop keeps the longest prefix of beats not after \<open>duration\<close>, one frame per beat.\<close>

lemma template_loop_map:
  "template_loop i beat_times duration []
     = map (\<lambda>(k, b). template_frame k b)
           (zip [i..<i + length (takeWhile (\<lambda>b. \<not> b > duration) beat_times)]
                (takeWhile (\<lambda>b. \<not> b > duration) beat_times))"
proof (induction beat_times arbitrary: i)
  case Nil
  then show ?case by simp
next
  case (Cons b bs)
  show ?case
  proof (cases "b > duration")
    case True
    then show ?thesis by simp
  next
    case False
    have "template_loop i (b # bs) duration []
            = template_frame i b # template_loop (Suc i) bs duration []"
      using False template_loop_append[of "Suc i" bs duration "[template_frame i b]"] by simp
    moreover have "[i..<i + Suc n] = i # [Suc i..<Suc i + n]" for n
      using upt_conv_Cons[of i "i + Suc n"] by simp
    ultimately show ?thesis using False Cons.IH[of "Suc i"] by (simp del: upt_Suc)
  qed
qed

lemma template_loop_length:
  "length (template_loop 0 beat_times duration [])
     = length (takeWhile (\<lambda>b. \<not> b > duration) beat_times)"
  by (simp add: template_loop_map)

lemma template_loop_nth:
  assumes "i < length (template_loop 0 beat_times duration [])"
  shows "template_loop 0 beat_times duration [] ! i = template_frame i (beat_times ! i)"
proof -
  let ?kept = "takeWhile (\<lambda>b. \<not> b > duration) beat_times"
  from assms have i: "i < length ?kept" by (simp add: template_loop_length)
  then have "template_loop 0 beat_times duration [] ! i = template_frame i (?kept ! i)"
    by (simp add: template_loop_map)
  also have "?kept ! i = beat_times ! i" using i by (rule takeWhile_nth)
  finally show ?thesis .
qed

lemma template_loop_timestamps:
  "map timestamp (template_loop 0 beat_times duration [])
     = takeWhile (\<lambda>b. \<not> b > duration) beat_times"
proof -
  let ?kept = "takeWhile (\<lambda>b. \<not> b > duration) beat_times"
  have "map timestamp (template_loop 0 beat_times duration [])
          = map (\<lambda>(k, b). b) (zip [0..<length ?kept] ?kept)"
    by (simp add: template_loop_map template_frame_def Let_def case_prod_unfold comp_def)
  also have "\<dots> = map snd (zip [0..<length ?kept] ?kept)"
    by (simp add: case_prod_unfold)
  also have "\<dots> = ?kept" by simp
  finally show ?thesis .
qed

lemma move_sequence_nth:
  "move_sequence ! ((i div move_beats) mod length move_sequence)
     = [Arms_up, Side_step, Wave_arms, Side_step] ! ((i div 4) mod 4)"
  by (simp add: move_sequence_def move_beats_def)

lemma template_frame_joints:
  "joints (template_frame i beat_time)
     = (case [Arms_up, Side_step, Wave_arms, Side_step] ! ((i div 4) mod 4) of
          Arms_up \<Rightarrow> arms_up (real (i mod 4) / 4)
        | Side_step \<Rightarrow> side_step (real (i mod 4) / 4) (if even (i div 4) then 1 else - 1)
        | Wave_arms \<Rightarrow> wave_arms (real (i mod 4) / 4))"
proof -
  have "(i div 4) mod 4 < 4" by simp
  then consider "(i div 4) mod 4 = 0" | "(i div 4) mod 4 = 1" | "(i div 4) mod 4 = 2" | "(i div 4) mod 4 = 3"
    by linarith
  then show ?thesis
    by cases (simp_all add: template_frame_def move_sequence_def move_beats_def Let_def
        even_iff_mod_2_eq_zero)
qed

text \<open>
  C2.  In the frames the sequencer returns, the frame of beat index \<open>i\<close> has the time of
  beat \<open>i\<close>, and its pose is the one of the move at position \<open>(i div 4) mod 4\<close> of the cycle
  \<open>[arms_up, side_step, wave_arms, side_step]\<close> at phase \<open>(i mod 4) / 4\<close>; the direction,
  \<open>+1\<close> when \<open>i div 4\<close> is even and \<open>-1\<close> otherwise, is passed to \<open>side_step\<close> only.
\<close>

theorem template_choreo_frame:
  assumes "generate_template_choreo bpm beat_times duration = Inr frames"
    and "i < length frames"
  shows "timestamp (frames ! i) = beat_times ! i
       \<and> joints (frames ! i)
         = (case [Arms_up, Side_step, Wave_arms, Side_step] ! ((i div 4) mod 4) of
              Arms_up \<Rightarrow> arms_up (real (i mod 4) / 4)
            | Side_step \<Rightarrow> side_step (real (i mod 4) / 4) (if even (i div 4) then 1 else - 1)
            | Wave_arms \<Rightarrow> wave_arms (real (i mod 4) / 4))"
proof -
  from assms(1) have frames: "frames = template_loop 0 beat_times duration []"
    by (simp add: generate_template_choreo_def split: if_splits)
  with assms(2) have nth: "frames ! i = template_frame i (beat_times ! i)"
    by (simp add: template_loop_nth)
  show ?thesis
    unfolding nth by (simp add: template_frame_joints) (simp add: template_frame_def Let_def)
qed

lemma template_eight:
  assumes "bpm \<noteq> 0" and "7 \<le> duration"
  shows "generate_template_choreo bpm [0, 1, 2, 3, 4, 5, 6, 7] duration
     = Inr [\<lparr>timestamp = 0, joints = arms_up 0\<rparr>,
            \<lparr>timestamp = 1, joints = arms_up (1 / 4)\<rparr>,
            \<lparr>timestamp = 2, joints = arms_up (2 / 4)\<rparr>,
            \<lparr>timestamp = 3, joints = arms_up (3 / 4)\<rparr>,
            \<lparr>timestamp = 4, joints = side_step 0 (- 1)\<rparr>,
            \<lparr>timestamp = 5, joints = side_step (1 / 4) (- 1)\<rparr>,
            \<lparr>timestamp = 6, joints = side_step (2 / 4) (- 1)\<rparr>,
            \<lparr>timestamp = 7, joints = side_step (3 / 4) (- 1)\<rparr>]"
  using assms
  by (simp add: generate_template_choreo_def template_frame_def move_sequence_def move_beats_def
      Let_def)

lemma arms_up_not_side_step: "arms_up t \<noteq> side_step t' d"
  by (simp add: arms_up_def side_step_def base_pose_def pt_def Let_def)

theorem template_choreo_frame_witness:
  "generate_template_choreo 120 [0, 1, 2, 3, 4, 5] 10
     = Inr (template_loop 0 [0, 1, 2, 3, 4, 5] 10 [])
   \<and> 5 < length (template_loop 0 [0, 1, 2, 3, 4, 5] 10 [])
   \<and> timestamp (template_loop 0 [0, 1, 2, 3, 4, 5] 10 [] ! 5) = 5
   \<and> joints (template_loop 0 [0, 1, 2, 3, 4, 5] 10 [] ! 5) = side_step (1 / 4) (- 1)"
proof -
  have g: "generate_template_choreo 120 [0, 1, 2, 3, 4, 5] 10
             = Inr (template_loop 0 [0, 1, 2, 3, 4, 5] 10 [])"
    by (simp add: generate_template_choreo_def)
  have l: "5 < length (template_loop 0 [0, 1, 2, 3, 4, 5] 10 [])"
    by (simp add: template_loop_length)
  show ?thesis
    using template_choreo_frame[OF g l] g l by simp
qed

text \<open>
  C3, as the code has it.  For the beats \<open>[0,1,2,3,4,5,6,7]\<close>, a duration of at least 7 and
  a tempo other than 0, the beats 0 to 3 all use \<open>arms_up\<close>, at the phases 0, 1/4, 1/2 and
  3/4, and the beats 4 to 7 all use \<open>side_step\<close>, at the same phases, with direction \<open>-1\<close>:
  each move spans four consecutive beats.
\<close>

theorem template_choreo_eight_beats:
  assumes "bpm \<noteq> 0" and "7 \<le> duration"
  shows "generate_template_choreo bpm [0, 1, 2, 3, 4, 5, 6, 7] duration
     = Inr [\<lparr>timestamp = 0, joints = arms_up 0\<rparr>,
            \<lparr>timestamp = 1, joints = arms_up (1 / 4)\<rparr>,
            \<lparr>timestamp = 2, joints = arms_up (1 / 2)\<rparr>,
            \<lparr>timestamp = 3, joints = arms_up (3 / 4)\<rparr>,
            \<lparr>timestamp = 4, joints = side_step 0 (- 1)\<rparr>,
            \<lparr>timestamp = 5, joints = side_step (1 / 4) (- 1)\<rparr>,
            \<lparr>timestamp = 6, joints = side_step (1 / 2) (- 1)\<rparr>,
            \<lparr>timestamp = 7, joints = side_step (3 / 4) (- 1)\<rparr>]"
  using template_eight[OF assms] by simp

theorem template_choreo_eight_beats_witness:
  "(120::real) \<noteq> 0 \<and> (7::real) \<le> 7
   \<and> generate_template_choreo 120 [0, 1, 2, 3, 4, 5, 6, 7] 7
     = Inr [\<lparr>timestamp = 0, joints = arms_up 0\<rparr>,
            \<lparr>timestamp = 1, joints = arms_up (1 / 4)\<rparr>,
            \<lparr>timestamp = 2, joints = arms_up (1 / 2)\<rparr>,
            \<lparr>timestamp = 3, joints = arms_up (3 / 4)\<rparr>,
            \<lparr>timestamp = 4, joints = side_step 0 (- 1)\<rparr>,
            \<lparr>timestamp = 5, joints = side_step (1 / 4) (- 1)\<rparr>,
            \<lparr>timestamp = 6, joints = side_step (1 / 2) (- 1)\<rparr>,
            \<lparr>timestamp = 7, joints = side_step (3 / 4) (- 1)\<rparr>]"
  using template_choreo_eight_beats[of 120 7] by simp

text \<open>
  C3, as the claim has it, fails at a tempo of 120 and a duration of 7: the frames are not
  those of \<open>arms_up\<close>, \<open>side_step\<close>, \<open>wave_arms\<close>, \<open>side_step\<close> with direction \<open>+1\<close> on the
  beats 0 to 3 and with direction \<open>-1\<close> on the beats 4 to 7.
\<close>

theorem template_choreo_eight_beats_counterexample:
  "generate_template_choreo 120 [0, 1, 2, 3, 4, 5, 6, 7] 7
     \<noteq> Inr [\<lparr>timestamp = 0, joints = arms_up 0\<rparr>,
            \<lparr>timestamp = 1, joints = side_step (1 / 4) 1\<rparr>,
            \<lparr>timestamp = 2, joints = wave_arms (1 / 2)\<rparr>,
            \<lparr>timestamp = 3, joints = side_step (3 / 4) 1\<rparr>,
            \<lparr>timestamp = 4, joints = arms_up 0\<rparr>,
            \<lparr>timestamp = 5, joints = side_step (1 / 4) (- 1)\<rparr>,
            \<lparr>timestamp = 6, joints = wave_arms (1 / 2)\<rparr>,
            \<lparr>timestamp = 7, joints = side_step (3 / 4) (- 1)\<rparr>]"
proof -
  have "generate_template_choreo 120 [0, 1, 2, 3, 4, 5, 6, 7] 7
     = Inr [\<lparr>timestamp = 0, joints = arms_up 0\<rparr>,
            \<lparr>timestamp = 1, joints = arms_up (1 / 4)\<rparr>,
            \<lparr>timestamp = 2, joints = arms_up (2 / 4)\<rparr>,
            \<lparr>timestamp = 3, joints = arms_up (3 / 4)\<rparr>,
            \<lparr>timestamp = 4, joints = side_step 0 (- 1)\<rparr>,
            \<lparr>timestamp = 5, joints = side_step (1 / 4) (- 1)\<rparr>,
            \<lparr>timestamp = 6, joints = side_step (2 / 4) (- 1)\<rparr>,
            \<lparr>timestamp = 7, joints = side_step (3 / 4) (- 1)\<rparr>]"
    by (rule template_eight) simp_all
  then show ?thesis using arms_up_not_side_step[of "1 / 4" "1 / 4" 1] by simp
qed

text \<open>
  C4.  With a tempo other than 0 the sequencer returns, and the times of its frames are the
  beats before the first one that is after \<open>duration\<close>, in order, one frame per beat; for
  the beats \<open>[0, 0.5, 1.0, 1.5, 2.0]\<close> and the duration 1.2 these are the three times
  0, 0.5 and 1.0.
\<close>

theorem template_choreo_truncates:
  assumes "bpm \<noteq> 0"
  shows "(\<exists>frames. generate_template_choreo bpm beat_times duration = Inr frames
            \<and> map timestamp frames = takeWhile (\<lambda>b. b \<le> duration) beat_times)
       \<and> (\<exists>frames. generate_template_choreo bpm [0, 0.5, 1.0, 1.5, 2.0] 1.2 = Inr frames
            \<and> length frames = 3 \<and> map timestamp frames = [0, 0.5, 1.0])"
proof -
  have eq: "(\<lambda>b. \<not> b > d) = (\<lambda>b::real. b \<le> d)" for d by (simp add: not_less)
  have gen: "\<exists>frames. generate_template_choreo bpm bs d = Inr frames
            \<and> map timestamp frames = takeWhile (\<lambda>b. b \<le> d) bs" for bs d
    using assms template_loop_timestamps[of bs d]
    by (simp add: generate_template_choreo_def eq)
  from gen[of "[0, 0.5, 1.0, 1.5, 2.0]" "1.2"] obtain frames
    where f: "generate_template_choreo bpm [0, 0.5, 1.0, 1.5, 2.0] 1.2 = Inr frames"
      and t: "map timestamp frames = takeWhile (\<lambda>b. b \<le> 1.2) [0, 0.5, 1.0, 1.5, 2.0]"
    by blast
  from t have t': "map timestamp frames = [0, 0.5, 1.0]" by simp
  then have "length (map timestamp frames) = 3" by simp
  then have len: "length frames = 3" by simp
  have ex: "\<exists>frames. generate_template_choreo bpm [0, 0.5, 1.0, 1.5, 2.0] 1.2 = Inr frames
            \<and> length frames = 3 \<and> map timestamp frames = [0, 0.5, 1.0]"
    by (rule exI[of _ frames]) (intro conjI f len t')
  show ?thesis by (rule conjI[OF gen ex])
qed

theorem template_choreo_truncates_witness:
  "(120::real) \<noteq> 0
   \<and> (\<exists>frames. generate_template_choreo 120 [0, 0.5, 1.0, 1.5, 2.0] 1.2 = Inr frames
         \<and> length frames = 3 \<and> map timestamp frames = [0, 0.5, 1.0])"
  using template_choreo_truncates[of 120] by simp

text \<open>
  C10.  The frames of the sequencer are the same for any two tempos other than 0: \<open>bpm\<close> is
  read only for \<open>beat_interval\<close>, which nothing reads.  At a tempo of 0 that division
  raises \<open>ZeroDivisionError\<close>.
\<close>

theorem template_choreo_ignores_bpm:
  "(bpm \<noteq> 0 \<and> bpm' \<noteq> 0 \<longrightarrow>
      generate_template_choreo bpm beat_times duration
        = generate_template_choreo bpm' beat_times duration
      \<and> (\<exists>frames. generate_template_choreo bpm beat_times duration = Inr frames))
   \<and> generate_template_choreo 0 beat_times duration = Inl ZeroDivisionError"
proof -
  have loop: "generate_template_choreo b beat_times duration
                = Inr (template_loop 0 beat_times duration [])" if "b \<noteq> 0" for b
    using that by (simp add: generate_template_choreo_def)
  have zero: "generate_template_choreo 0 beat_times duration = Inl ZeroDivisionError"
    by (simp add: generate_template_choreo_def)
  show ?thesis using loop[of bpm] loop[of bpm'] zero by simp
qed

theorem template_choreo_ignores_bpm_witness:
  "(120::real) \<noteq> 0 \<and> (90::real) \<noteq> 0
   \<and> generate_template_choreo 120 [0, 1] 3 = generate_template_choreo 90 [0, 1] 3
   \<and> generate_template_choreo 0 [0, 1] 3 = Inl ZeroDivisionError"
  using template_choreo_ignores_bpm[of 120 90 "[0, 1]" 3] by simp
section \<open>Properties of the ML tier\<close>

lemma try_edge_generation_result:
  "snd (try_edge_generation eo bpm beat_times out)
     = (case eo of
          EdgeOutput output \<Rightarrow>
            (case project_frames output [] of
               Inl e \<Rightarrow> Inr None
             | Inr frames \<Rightarrow> Inr (if frames \<noteq> [] then Some frames else None))
        | _ \<Rightarrow> Inr None)"
  by (cases eo)
     (simp_all add: try_edge_generation_def edge_body_def Let_def split: sum.splits)

text \<open>
  C6.  \<open>try_edge_generation\<close> never raises: its result is \<open>None\<close> or a list of frames that
  is not empty.  It is \<open>None\<close> when \<open>torch\<close> or the EDGE module is missing, when loading
  the model or the inference raises, when the projection of a pose raises, and when no
  frame is left after the skipping.
\<close>

theorem try_edge_generation_never_raises:
  "(snd (try_edge_generation eo bpm beat_times out) = Inr None
      \<or> (\<exists>frames. frames \<noteq> []
            \<and> snd (try_edge_generation eo bpm beat_times out) = Inr (Some frames)))
   \<and> snd (try_edge_generation (TorchMissing e) bpm beat_times out) = Inr None
   \<and> snd (try_edge_generation EdgeSpecMissing bpm beat_times out) = Inr None
   \<and> snd (try_edge_generation (EdgeLoadFails e) bpm beat_times out) = Inr None
   \<and> snd (try_edge_generation (EdgeInferenceFails e) bpm beat_times out) = Inr None
   \<and> (project_frames output [] = Inl e \<or> project_frames output [] = Inr []
        \<longrightarrow> snd (try_edge_generation (EdgeOutput output) bpm beat_times out) = Inr None)"
  unfolding try_edge_generation_result
  by (cases eo) (auto split: sum.splits)

lemma project_frames_short_row: "project_frames [(0, [[Fin 0], [Fin 1]])] [] = Inl IndexError"
  by (simp add: project_smpl_to_2d_def SMPL_TO_JOINT_def)

lemma project_frames_no_joint: "project_frames [(0, [[Fin 0, Fin 0, Fin 0]])] [] = Inr []"
  by (simp add: project_smpl_to_2d_def SMPL_TO_JOINT_def)

lemma project_frames_example:
  "project_frames [(0, [[Fin 0, Fin 0, Fin 0]]), (1, [[Fin 0, Fin 0, Fin 0], [Fin 1, Fin 2, Fin 0], [Fin 3, Fin 5, Fin 0]])] []
     = Inr [\<lparr>timestamp = 1, joints = [(''left_hip'', (Fin 0, Fin 1)), (''right_hip'', (Fin 1, Fin 0))]\<rparr>]"
  by (simp add: project_smpl_to_2d_def SMPL_TO_JOINT_def or_one_def fl_sub_Fin fl_of_moderate
      Let_def)

theorem try_edge_generation_never_raises_witness:
  "snd (try_edge_generation (EdgeOutput [(0, [[Fin 0], [Fin 1]])]) 120 [0] []) = Inr None
   \<and> snd (try_edge_generation (EdgeOutput [(0, [[Fin 0, Fin 0, Fin 0]])]) 120 [0] []) = Inr None
   \<and> snd (try_edge_generation
            (EdgeOutput [(0, [[Fin 0, Fin 0, Fin 0]]), (1, [[Fin 0, Fin 0, Fin 0], [Fin 1, Fin 2, Fin 0], [Fin 3, Fin 5, Fin 0]])]) 120 [0] [])
       = Inr (Some [\<lparr>timestamp = 1,
                      joints = [(''left_hip'', (Fin 0, Fin 1)), (''right_hip'', (Fin 1, Fin 0))]\<rparr>])"
proof -
  have a: "snd (try_edge_generation (EdgeOutput [(0, [[Fin 0], [Fin 1]])]) 120 [0] []) = Inr None"
    using try_edge_generation_never_raises[of _ 120 "[0]" "[]" IndexError "[(0, [[Fin 0], [Fin 1]])]"]
      project_frames_short_row by blast
  have b: "snd (try_edge_generation (EdgeOutput [(0, [[Fin 0, Fin 0, Fin 0]])]) 120 [0] []) = Inr None"
    using try_edge_generation_never_raises[of _ 120 "[0]" "[]" _ "[(0, [[Fin 0, Fin 0, Fin 0]])]"]
      project_frames_no_joint by blast
  have c: "snd (try_edge_generation
            (EdgeOutput [(0, [[Fin 0, Fin 0, Fin 0]]), (1, [[Fin 0, Fin 0, Fin 0], [Fin 1, Fin 2, Fin 0], [Fin 3, Fin 5, Fin 0]])]) 120 [0] [])
       = Inr (Some [\<lparr>timestamp = 1,
                      joints = [(''left_hip'', (Fin 0, Fin 1)), (''right_hip'', (Fin 1, Fin 0))]\<rparr>])"
    by (simp add: try_edge_generation_result project_frames_example del: project_frames.simps)
  show ?thesis using a b c by simp
qed
section \<open>Properties of the audio analysis\<close>








section \<open>Properties of the orchestrator\<close>

lemma snd_analyze: "snd (analyze e out) = snd (analyze e [])"
  by (simp add: analyze_def Let_def split: sum.splits)

lemma snd_generate_frames:
  "snd (generate_frames eo bpm beat_times duration out)
     = (case snd (try_edge_generation eo bpm beat_times []) of
          Inl ex \<Rightarrow> Inl ex
        | Inr None \<Rightarrow> generate_template_choreo bpm beat_times duration
        | Inr (Some frames) \<Rightarrow> Inr frames)"
proof -
  have same: "snd (try_edge_generation eo bpm beat_times out)
                = snd (try_edge_generation eo bpm beat_times [])"
    by (simp only: try_edge_generation_result)
  obtain out' r where t: "try_edge_generation eo bpm beat_times out = (out', r)"
    by (cases "try_edge_generation eo bpm beat_times out")
  with same have r: "snd (try_edge_generation eo bpm beat_times []) = r" by simp
  show ?thesis
    unfolding r generate_frames_def t
    by (simp add: Let_def split: sum.splits option.splits)
qed

lemma snd_generate:
  "snd (generate e out)
     = (case makedirs e of
          Some ex \<Rightarrow> Inl ex
        | None \<Rightarrow>
            (case snd (analyze e []) of
               (bpm, duration, beat_times) \<Rightarrow>
                 (case write_analysis e of
                    Some ex \<Rightarrow> Inl ex
                  | None \<Rightarrow>
                      (case snd (generate_frames (edge e) bpm beat_times duration []) of
                         Inl ex \<Rightarrow> Inl ex
                       | Inr frames \<Rightarrow>
                           (case write_choreo e of
                              Some ex \<Rightarrow> Inl ex
                            | None \<Rightarrow> Inr \<lparr>songMD5 = basename (output_dir e),
                                             choreo_bpm = bpm,
                                             totalDuration = duration,
                                             choreo_frames = frames\<rparr>)))))"
proof (cases "makedirs e")
  case (Some ex)
  then show ?thesis by (simp add: generate_def)
next
  case None
  obtain out1 bpm duration beat_times
    where a: "analyze e (emit_progress ''Analyzing music'' 0.1 out) = (out1, bpm, duration, beat_times)"
    by (cases "analyze e (emit_progress ''Analyzing music'' 0.1 out)") auto
  then have a0: "snd (analyze e []) = (bpm, duration, beat_times)"
    using snd_analyze[of e "emit_progress ''Analyzing music'' 0.1 out"] by simp
  obtain out2 r
    where g: "generate_frames (edge e) bpm beat_times duration
                (emit_progress ''Generating moves'' 0.3 out1) = (out2, r)"
    by (cases "generate_frames (edge e) bpm beat_times duration
                (emit_progress ''Generating moves'' 0.3 out1)")
  then have g0: "snd (generate_frames (edge e) bpm beat_times duration []) = r"
    using snd_generate_frames[of "edge e" bpm beat_times duration
        "emit_progress ''Generating moves'' 0.3 out1"]
      snd_generate_frames[of "edge e" bpm beat_times duration "[]"]
    by simp
  show ?thesis
    by (simp add: generate_def None a a0 g g0 Let_def split: option.splits sum.splits)
qed

text \<open>
  C5.  Whenever the ML tier returns \<open>None\<close>, the frames of a choreography that \<open>generate\<close>
  assembles are exactly what \<open>generate_template_choreo\<close> returns for the tempo, the beats
  and the duration of the analysis; and \<open>generate\<close> does assemble one when the tempo is
  not 0 and no external call fails.
\<close>

theorem fallback_frames_are_template:
  assumes "snd (try_edge_generation (edge e) bpm beat_times out0) = Inr None"
    and "snd (analyze e out1) = (bpm, duration, beat_times)"
  shows "(\<forall>c. snd (generate e out) = Inr c \<longrightarrow>
            generate_template_choreo bpm beat_times duration = Inr (choreo_frames c)
            \<and> choreo_bpm c = bpm \<and> totalDuration c = duration)
       \<and> (makedirs e = None \<and> write_analysis e = None \<and> write_choreo e = None \<and> bpm \<noteq> 0
            \<longrightarrow> (\<exists>c. snd (generate e out) = Inr c))"
proof -
  from assms(1) have t: "snd (try_edge_generation (edge e) bpm beat_times []) = Inr None"
    by (simp only: try_edge_generation_result)
  have gf: "snd (generate_frames (edge e) bpm beat_times duration [])
              = generate_template_choreo bpm beat_times duration"
    by (simp add: snd_generate_frames t)
  from assms(2) have a: "snd (analyze e []) = (bpm, duration, beat_times)"
    using snd_analyze[of e out1] by simp
  have ok: "\<exists>frames. generate_template_choreo bpm beat_times duration = Inr frames" if "bpm \<noteq> 0"
    using that by (simp add: generate_template_choreo_def)
  show ?thesis
    using ok by (auto simp: snd_generate a gf split: option.splits sum.splits)
qed

lemma fallback_example:
  "generate \<lparr>mp3_path = ''a.mp3'', output_dir = ''out/abc'', isfile = True, makedirs = None,
             librosa = Inr (1, 120, [0]), soundfile = Inr 1,
             edge = EdgeSpecMissing, write_analysis = None, write_choreo = None,
             fl_round = (\<lambda>x. x)\<rparr> []
     = ([\<lparr>stage = ''Analyzing music'', progress = 0.1, error = None\<rparr>,
         \<lparr>stage = ''Generating moves'', progress = 0.3, error = None\<rparr>,
         \<lparr>stage = ''Generating moves (template mode)'', progress = 0.4, error = None\<rparr>,
         \<lparr>stage = ''Saving choreography'', progress = 0.9, error = None\<rparr>,
         \<lparr>stage = ''Done'', progress = 1.0, error = None\<rparr>],
        Inr \<lparr>songMD5 = ''abc'', choreo_bpm = 120, totalDuration = 1,
             choreo_frames = [\<lparr>timestamp = 0, joints = arms_up 0\<rparr>]\<rparr>)"
  by (simp add: generate_def analyze_def analyze_primary_def generate_frames_def
      try_edge_generation_def edge_body_def emit_progress_def generate_template_choreo_def
      template_frame_def move_sequence_def move_beats_def basename_def Let_def)

theorem fallback_frames_are_template_witness:
  "generate_template_choreo 120 [0] 1 = Inr [\<lparr>timestamp = 0, joints = arms_up 0\<rparr>]"
proof -
  let ?e = "\<lparr>mp3_path = ''a.mp3'', output_dir = ''out/abc'', isfile = True, makedirs = None,
             librosa = Inr (1, 120, [0]), soundfile = Inr 1,
             edge = EdgeSpecMissing, write_analysis = None, write_choreo = None,
             fl_round = (\<lambda>x. x)\<rparr>"
  have t: "snd (try_edge_generation (edge ?e) 120 [0] []) = Inr None"
    by (simp add: try_edge_generation_result)
  have a: "snd (analyze ?e []) = (120, 1, [0])"
    by (simp add: analyze_def analyze_primary_def)
  have g: "snd (generate ?e [])
     = Inr \<lparr>songMD5 = ''abc'', choreo_bpm = 120, totalDuration = 1,
             choreo_frames = [\<lparr>timestamp = 0, joints = arms_up 0\<rparr>]\<rparr>"
    by (simp only: fallback_example snd_conv)
  show ?thesis
    using fallback_frames_are_template[OF t a, of "[]"] g by simp
qed
section \<open>Poses in the unit square\<close>

lemma base_pose_ok: "pose_ok base_pose"
  by (simp add: pose_ok_def base_pose_def pt_def JOINT_NAMES_def in_unit_def)

lemma arms_up_ok: "pose_ok (arms_up t)"
proof -
  define lift where "lift = \<bar>sin (t * pi)\<bar>"
  have l: "0 \<le> lift" "lift \<le> 1" by (simp_all add: lift_def)
  show ?thesis
    unfolding arms_up_def Let_def lift_def[symmetric]
    using l by (simp add: pose_ok_def base_pose_def pt_def JOINT_NAMES_def in_unit_def)
qed

lemma side_step_ok:
  assumes "\<bar>d\<bar> \<le> 1"
  shows "pose_ok (side_step t d)"
proof -
  define shift where "shift = d * 0.06 * \<bar>sin (t * pi)\<bar>"
  have "\<bar>shift\<bar> = \<bar>d\<bar> * \<bar>sin (t * pi)\<bar> * 0.06" by (simp add: shift_def abs_mult)
  moreover have "\<bar>d\<bar> * \<bar>sin (t * pi)\<bar> \<le> 1"
    using assms by (intro mult_le_one) simp_all
  ultimately have "\<bar>shift\<bar> \<le> 0.06" by simp
  then have s: "- 0.06 \<le> shift" "shift \<le> 0.06" by (simp_all add: abs_le_iff)
  have add: "fl_of (a + shift) = Fin (a + shift)" if "0 \<le> a" "a \<le> 1" for a
    using that s by (intro fl_of_small) (simp add: abs_le_iff)
  show ?thesis
    unfolding side_step_def Let_def shift_def[symmetric]
    using s by (simp add: pose_ok_def base_pose_def pt_def JOINT_NAMES_def in_unit_def add)
qed

lemma wave_arms_ok: "pose_ok (wave_arms t)"
proof -
  define wave where "wave = sin (t * pi * 2)"
  have w: "- 1 \<le> wave" "wave \<le> 1" by (simp_all add: wave_def)
  show ?thesis
    unfolding wave_arms_def Let_def wave_def[symmetric]
    using w by (simp add: pose_ok_def base_pose_def pt_def JOINT_NAMES_def in_unit_def)
qed

lemma template_frame_ok: "pose_ok (joints (template_frame i beat_time))"
proof -
  have "(i div 4) mod 4 < 4" by simp
  then consider "(i div 4) mod 4 = 0" | "(i div 4) mod 4 = 1" | "(i div 4) mod 4 = 2" | "(i div 4) mod 4 = 3"
    by linarith
  then show ?thesis
    by cases (simp_all add: template_frame_joints arms_up_ok side_step_ok wave_arms_ok)
qed

lemma template_choreo_ok:
  assumes "generate_template_choreo bpm beat_times duration = Inr frames" and "f \<in> set frames"
  shows "pose_ok (joints f)"
proof -
  from assms(1) have "frames = template_loop 0 beat_times duration []"
    by (simp add: generate_template_choreo_def split: if_splits)
  with assms(2) show ?thesis
    by (auto simp: template_loop_map template_frame_ok)
qed

lemma SMPL_names: "snd ` set SMPL_TO_JOINT \<subseteq> set JOINT_NAMES"
  by (simp add: SMPL_TO_JOINT_def JOINT_NAMES_def)

lemma project_names:
  assumes "project_smpl_to_2d joints_3d = Inr m"
  shows "set (map fst m) \<subseteq> set JOINT_NAMES"
proof -
  have "set (map fst m) \<subseteq> snd ` set SMPL_TO_JOINT"
    unfolding project_keys[OF assms]
    by (force simp: visible_points_def raw_point_def)
  then show ?thesis using SMPL_names by blast
qed

lemma project_ok:
  assumes "project_smpl_to_2d joints_3d = Inr m" and "tame (visible_points joints_3d)"
  shows "pose_ok m"
proof -
  have "\<forall>(name, q) \<in> set m. name \<in> set JOINT_NAMES"
    using project_names[OF assms(1)] by force
  then show ?thesis using project_tame_unit[OF assms] by (auto simp: pose_ok_def)
qed

lemma project_frames_ok:
  assumes "project_frames outp acc = Inr frames" and "\<forall>f \<in> set acc. pose_ok (joints f)"
    and "\<forall>(t, pose_3d) \<in> set outp. tame (visible_points pose_3d)"
  shows "\<forall>f \<in> set frames. pose_ok (joints f)"
  using assms
proof (induction outp acc rule: project_frames.induct)
  case (1 acc)
  then show ?case by simp
next
  case (2 t pose_3d rest acc)
  from "2.prems"(1) obtain joints_2d where p: "project_smpl_to_2d pose_3d = Inr joints_2d"
    by (cases "project_smpl_to_2d pose_3d") simp_all
  from "2.prems"(3) have tm: "tame (visible_points pose_3d)"
    and rest: "\<forall>(t, pose_3d) \<in> set rest. tame (visible_points pose_3d)" by simp_all
  have ok: "pose_ok joints_2d" by (rule project_ok[OF p tm])
  show ?case
  proof (cases "joints_2d \<noteq> []")
    case True
    with "2.prems" p ok rest "2.IH"(1)[OF p True] show ?thesis by simp
  next
    case False
    with "2.prems" p rest "2.IH"(2)[OF p False] show ?thesis by simp
  qed
qed

lemma generate_frames_ok:
  assumes "snd (generate_frames eo bpm beat_times duration out) = Inr frames"
    and "edge_tame eo" and "f \<in> set frames"
  shows "pose_ok (joints f)"
proof (cases "snd (try_edge_generation eo bpm beat_times [])")
  case (Inl ex)
  with assms(1) show ?thesis by (simp add: snd_generate_frames)
next
  case (Inr r)
  show ?thesis
  proof (cases r)
    case None
    with Inr assms(1) have "generate_template_choreo bpm beat_times duration = Inr frames"
      by (simp add: snd_generate_frames)
    then show ?thesis using assms(3) by (rule template_choreo_ok)
  next
    case (Some fs)
    with Inr assms(1) have fs: "fs = frames" by (simp add: snd_generate_frames)
    from Inr Some obtain outp where eo: "eo = EdgeOutput outp"
      and pf: "project_frames outp [] = Inr fs"
      by (cases eo) (auto simp: try_edge_generation_result split: sum.splits if_splits)
    from assms(2) eo have "\<forall>(t, pose_3d) \<in> set outp. tame (visible_points pose_3d)"
      by (simp add: edge_tame_def)
    from project_frames_ok[OF pf _ this] assms(3) fs show ?thesis by simp
  qed
qed

lemma generate_ok:
  assumes "snd (generate e out) = Inr c" and "edge_tame (edge e)"
    and "f \<in> set (choreo_frames c)"
  shows "pose_ok (joints f)"
proof -
  obtain bpm duration beat_times where a: "snd (analyze e []) = (bpm, duration, beat_times)"
    by (cases "snd (analyze e [])") auto
  from assms(1) obtain frames
    where g: "snd (generate_frames (edge e) bpm beat_times duration []) = Inr frames"
      and c: "choreo_frames c = frames"
    by (auto simp: snd_generate a split: option.splits sum.splits)
  from generate_frames_ok[OF g assms(2)] assms(3) c show ?thesis by simp
qed

text \<open>
  C8, as the code has it.  Every joint of the poses of \<open>base_pose\<close>, \<open>arms_up\<close>,
  \<open>side_step\<close> (with a direction between \<open>-1\<close> and \<open>+1\<close>) and \<open>wave_arms\<close>, at any
  phase, has a name of \<open>JOINT_NAMES\<close> and both coordinates in \<open>[0,1]\<close>.  Every joint of a
  pose that \<open>project_smpl_to_2d\<close> returns has a name of \<open>JOINT_NAMES\<close>, and both
  coordinates in \<open>[0,1]\<close> when the raw points are tame.  So has every joint of every frame
  of a choreography that \<open>generate\<close> assembles, when the raw points of every pose of the ML
  tier are tame; the frames of the template tier always have.
\<close>

theorem every_pose_in_unit_square:
  "pose_ok base_pose \<and> pose_ok (arms_up t) \<and> pose_ok (wave_arms t)
   \<and> (\<bar>direction\<bar> \<le> 1 \<longrightarrow> pose_ok (side_step t direction))
   \<and> (project_smpl_to_2d joints_3d = Inr m \<longrightarrow> set (map fst m) \<subseteq> set JOINT_NAMES)
   \<and> (project_smpl_to_2d joints_3d = Inr m \<and> tame (visible_points joints_3d) \<longrightarrow> pose_ok m)
   \<and> (snd (generate e out) = Inr c \<and> edge_tame (edge e)
        \<longrightarrow> (\<forall>f \<in> set (choreo_frames c). pose_ok (joints f)))
   \<and> (generate_template_choreo bpm beat_times duration = Inr frames
        \<longrightarrow> (\<forall>f \<in> set frames. pose_ok (joints f)))"
  using base_pose_ok arms_up_ok wave_arms_ok side_step_ok project_names project_ok generate_ok
    template_choreo_ok
  by blast

theorem every_pose_in_unit_square_witness:
  "pose_ok (side_step (1 / 4) (- 1))
   \<and> pose_ok [(''left_hip'', (Fin 0, Fin 1)), (''right_hip'', (Fin 1, Fin 0))]
   \<and> pose_ok (arms_up 0)"
proof -
  let ?e = "\<lparr>mp3_path = ''a.mp3'', output_dir = ''out/abc'', isfile = True, makedirs = None,
             librosa = Inr (1, 120, [0]), soundfile = Inr 1,
             edge = EdgeSpecMissing, write_analysis = None, write_choreo = None,
             fl_round = (\<lambda>x. x)\<rparr>"
  let ?c = "\<lparr>songMD5 = ''abc'', choreo_bpm = 120, totalDuration = 1,
             choreo_frames = [\<lparr>timestamp = 0, joints = arms_up 0\<rparr>]\<rparr>"
  have g: "snd (generate ?e []) = Inr ?c" by (simp only: fallback_example snd_conv)
  have et: "edge_tame (edge ?e)" by (simp add: edge_tame_def)
  have d: "\<bar>- 1 :: real\<bar> \<le> 1" by simp
  have tm: "tame (visible_points [[Fin 0, Fin 0, Fin 0], [Fin 1, Fin 2, Fin 0], [Fin 3, Fin 5, Fin 0]])"
    by (simp only: visible_example tame_example)
  from every_pose_in_unit_square[of "1 / 4" "- 1"
      "[[Fin 0, Fin 0, Fin 0], [Fin 1, Fin 2, Fin 0], [Fin 3, Fin 5, Fin 0]]"
      "[(''left_hip'', (Fin 0, Fin 1)), (''right_hip'', (Fin 1, Fin 0))]" ?e "[]" ?c]
  show ?thesis using g et d tm project_example by simp
qed

lemma overflow_run:
  "snd (generate \<lparr>mp3_path = ''a.mp3'', output_dir = ''out/abc'', isfile = True, makedirs = None,
             librosa = Inr (1, 120, [0]), soundfile = Inr 1,
             edge = EdgeOutput [(0, [[Fin 0, Fin 0, Fin 0], [Fin (2 ^ 1023), Fin 0, Fin 0],
                                     [Fin (- (2 ^ 1023)), Fin 0, Fin 0]])],
             write_analysis = None, write_choreo = None, fl_round = (\<lambda>x. x)\<rparr> [])
     = Inr \<lparr>songMD5 = ''abc'', choreo_bpm = 120, totalDuration = 1,
            choreo_frames = [\<lparr>timestamp = 0,
               joints = [(''left_hip'', (NaN, Fin 1)), (''right_hip'', (Fin 0, Fin 1))]\<rparr>]\<rparr>"
proof -
  define pose_3d where "pose_3d
    = [[Fin 0, Fin 0, Fin 0], [Fin (2 ^ 1023), Fin 0, Fin 0], [Fin (- (2 ^ 1023)), Fin 0, Fin 0]]"
  have p: "project_smpl_to_2d pose_3d
     = Inr [(''left_hip'', (NaN, Fin 1)), (''right_hip'', (Fin 0, Fin 1))]"
    unfolding pose_3d_def by (rule project_smpl_to_2d_overflow)
  have "snd (generate \<lparr>mp3_path = ''a.mp3'', output_dir = ''out/abc'', isfile = True,
             makedirs = None, librosa = Inr (1, 120, [0]), soundfile = Inr 1,
             edge = EdgeOutput [(0, pose_3d)],
             write_analysis = None, write_choreo = None, fl_round = (\<lambda>x. x)\<rparr> [])
     = Inr \<lparr>songMD5 = ''abc'', choreo_bpm = 120, totalDuration = 1,
            choreo_frames = [\<lparr>timestamp = 0,
               joints = [(''left_hip'', (NaN, Fin 1)), (''right_hip'', (Fin 0, Fin 1))]\<rparr>]\<rparr>"
    by (simp add: snd_generate snd_generate_frames try_edge_generation_result p
        analyze_def analyze_primary_def basename_def)
  then show ?thesis unfolding pose_3d_def .
qed

text \<open>
  C8, as the claim has it, fails on the ML tier: when the model returns one pose whose raw
  X of the two hips are \<open>2^1023\<close> and \<open>- 2^1023\<close>, the run succeeds and the only frame
  of its choreography has NaN as the X of the left hip.
\<close>

theorem every_pose_in_unit_square_counterexample:
  "snd (generate \<lparr>mp3_path = ''a.mp3'', output_dir = ''out/abc'', isfile = True, makedirs = None,
             librosa = Inr (1, 120, [0]), soundfile = Inr 1,
             edge = EdgeOutput [(0, [[Fin 0, Fin 0, Fin 0], [Fin (2 ^ 1023), Fin 0, Fin 0],
                                     [Fin (- (2 ^ 1023)), Fin 0, Fin 0]])],
             write_analysis = None, write_choreo = None, fl_round = (\<lambda>x. x)\<rparr> [])
     = Inr \<lparr>songMD5 = ''abc'', choreo_bpm = 120, totalDuration = 1,
            choreo_frames = [\<lparr>timestamp = 0,
               joints = [(''left_hip'', (NaN, Fin 1)), (''right_hip'', (Fin 0, Fin 1))]\<rparr>]\<rparr>
   \<and> \<not> pose_ok [(''left_hip'', (NaN, Fin 1)), (''right_hip'', (Fin 0, Fin 1))]"
proof (rule conjI)
  show "\<not> pose_ok [(''left_hip'', (NaN, Fin 1)), (''right_hip'', (Fin 0, Fin 1))]"
    by (simp add: pose_ok_def in_unit_def)
qed (rule overflow_run)
section \<open>The progress events of a run\<close>

lemma progress_emit: "map progress (emit_progress s p out) = map progress out @ [p]"
  by (simp add: emit_progress_def)

text \<open>What the ML tier prints, by its outcome.\<close>

lemma try_edge_progress:
  "map progress (fst (try_edge_generation eo bpm beat_times out))
     = map progress out
       @ (case eo of
            TorchMissing e \<Rightarrow> []
          | EdgeSpecMissing \<Rightarrow> []
          | EdgeLoadFails e \<Rightarrow> [0.35]
          | EdgeInferenceFails e \<Rightarrow> [0.35, 0.5]
          | EdgeOutput outp \<Rightarrow> [0.35, 0.5, 0.75])"
  by (cases eo)
     (simp_all add: try_edge_generation_def edge_body_def emit_progress_def Let_def
        split: sum.splits)

lemma ml_fails_late_iff:
  "ml_fails_late eo
     \<longleftrightarrow> snd (try_edge_generation eo bpm beat_times out) = Inr None
         \<and> (case eo of EdgeInferenceFails e \<Rightarrow> True | EdgeOutput outp \<Rightarrow> True | _ \<Rightarrow> False)"
proof -
  obtain out' r where t: "try_edge_generation eo 0 [] [] = (out', r)"
    by (cases "try_edge_generation eo 0 [] []")
  have r: "snd (try_edge_generation eo bpm beat_times out) = r"
    using t try_edge_generation_result[of eo 0 "[]" "[]"]
      try_edge_generation_result[of eo bpm beat_times out] by simp
  have mp: "map progress out'
       = (case eo of
            TorchMissing e \<Rightarrow> []
          | EdgeSpecMissing \<Rightarrow> []
          | EdgeLoadFails e \<Rightarrow> [0.35]
          | EdgeInferenceFails e \<Rightarrow> [0.35, 0.5]
          | EdgeOutput outp \<Rightarrow> [0.35, 0.5, 0.75])"
    using try_edge_progress[of eo 0 "[]" "[]"] t by simp
  have "(\<exists>ev \<in> set out'. 0.4 < progress ev) \<longleftrightarrow> (\<exists>p \<in> set (map progress out'). 0.4 < p)"
    by auto
  also have "\<dots> \<longleftrightarrow> (case eo of EdgeInferenceFails e \<Rightarrow> True | EdgeOutput outp \<Rightarrow> True | _ \<Rightarrow> False)"
  proof -
    have two: "\<exists>p \<in> set [0.35, 0.5 :: real]. 0.4 < p"
      by (rule bexI[of _ "0.5"]) simp_all
    have three: "\<exists>p \<in> set [0.35, 0.5, 0.75 :: real]. 0.4 < p"
      by (rule bexI[of _ "0.5"]) simp_all
    have one: "\<not> (\<exists>p \<in> set [0.35 :: real]. 0.4 < p)" by simp
    show ?thesis
      unfolding mp using one two three by (cases eo) (simp_all only: edge_outcome.case, simp_all)
  qed
  finally show ?thesis by (simp add: ml_fails_late_def t r)
qed

lemma try_edge_generation_shape:
  "snd (try_edge_generation eo bpm beat_times out) = Inr None
   \<or> (\<exists>frames. snd (try_edge_generation eo bpm beat_times out) = Inr (Some frames))"
  by (cases eo) (auto simp: try_edge_generation_result split: sum.splits)

lemma generate_frames_progress:
  assumes "\<not> ml_fails_late eo"
  shows "\<exists>g. map progress (fst (generate_frames eo bpm beat_times duration out))
               = map progress out @ g
            \<and> g \<in> {[0.4], [0.35, 0.4], [0.35, 0.5, 0.75]}"
proof -
  obtain out' r where t: "try_edge_generation eo bpm beat_times out = (out', r)"
    by (cases "try_edge_generation eo bpm beat_times out")
  from try_edge_generation_shape[of eo bpm beat_times out] t
  consider "r = Inr None" | frames where "r = Inr (Some frames)" by auto
  then show ?thesis
  proof cases
    case 1
    from assms have "\<not> (snd (try_edge_generation eo bpm beat_times out) = Inr None
         \<and> (case eo of EdgeInferenceFails e \<Rightarrow> True | EdgeOutput outp \<Rightarrow> True | _ \<Rightarrow> False))"
      using ml_fails_late_iff[of eo bpm beat_times out] by blast
    with t 1 have "case eo of EdgeInferenceFails e \<Rightarrow> False | EdgeOutput outp \<Rightarrow> False | _ \<Rightarrow> True"
      by (cases eo) simp_all
    then show ?thesis
      using try_edge_progress[of eo bpm beat_times out] t 1
      by (cases eo) (simp_all add: generate_frames_def progress_emit)
  next
    case 2
    with t have "snd (try_edge_generation eo bpm beat_times out) = Inr (Some frames)" by simp
    then have "\<exists>outp. eo = EdgeOutput outp"
      by (cases eo) (simp_all add: try_edge_generation_result)
    then show ?thesis
      using try_edge_progress[of eo bpm beat_times out] t 2
      by (auto simp: generate_frames_def)
  qed
qed

lemma analyze_progress:
  "\<exists>a. map progress (fst (analyze e out)) = map progress out @ a \<and> a \<in> {[], [0.15]}"
  by (cases "analyze_primary e") (simp_all add: analyze_def progress_emit Let_def)

lemma sorted_run:
  assumes "a \<in> {[], [0.15 :: real]}" and "g \<in> {[0.4], [0.35, 0.4], [0.35, 0.5, 0.75 :: real]}"
  shows "sorted ([0.1] @ a) \<and> sorted ([0.1] @ a @ [0.3] @ g)
       \<and> sorted ([0.1] @ a @ [0.3] @ g @ [0.9]) \<and> sorted ([0.1] @ a @ [0.3] @ g @ [0.9, 1.0])"
  using assms by auto

lemma generate_sorted:
  assumes "\<not> ml_fails_late (edge e)"
  shows "sorted (map progress (fst (generate e [])))"
proof (cases "makedirs e")
  case (Some ex)
  then show ?thesis by (simp add: generate_def)
next
  case None
  obtain out1 bpm duration beat_times
    where a: "analyze e (emit_progress ''Analyzing music'' 0.1 []) = (out1, bpm, duration, beat_times)"
    by (cases "analyze e (emit_progress ''Analyzing music'' 0.1 [])") auto
  from analyze_progress[of e "emit_progress ''Analyzing music'' 0.1 []"] a
  obtain al where p1: "map progress out1 = [0.1] @ al" and al: "al \<in> {[], [0.15]}"
    by (auto simp: progress_emit)
  obtain out2 r
    where g: "generate_frames (edge e) bpm beat_times duration
                (emit_progress ''Generating moves'' 0.3 out1) = (out2, r)"
    by (cases "generate_frames (edge e) bpm beat_times duration
                (emit_progress ''Generating moves'' 0.3 out1)")
  from generate_frames_progress[OF assms, of bpm beat_times duration
      "emit_progress ''Generating moves'' 0.3 out1"] g
  obtain gl where p2: "map progress out2 = [0.1] @ al @ [0.3] @ gl"
    and gl: "gl \<in> {[0.4], [0.35, 0.4], [0.35, 0.5, 0.75]}"
    by (auto simp: progress_emit p1)
  have "map progress (fst (generate e []))
          \<in> {[0.1] @ al, [0.1] @ al @ [0.3] @ gl, [0.1] @ al @ [0.3] @ gl @ [0.9],
             [0.1] @ al @ [0.3] @ gl @ [0.9, 1.0]}"
    using p1 p2
    by (simp add: generate_def None a g Let_def progress_emit split: option.splits sum.splits)
  then consider "map progress (fst (generate e [])) = [0.1] @ al"
    | "map progress (fst (generate e [])) = [0.1] @ al @ [0.3] @ gl"
    | "map progress (fst (generate e [])) = [0.1] @ al @ [0.3] @ gl @ [0.9]"
    | "map progress (fst (generate e [])) = [0.1] @ al @ [0.3] @ gl @ [0.9, 1.0]"
    by blast
  then show ?thesis
  proof cases
    case 1
    show ?thesis unfolding 1 using sorted_run[OF al gl] by (rule conjunct1)
  next
    case 2
    show ?thesis unfolding 2 using sorted_run[OF al gl] by blast
  next
    case 3
    show ?thesis unfolding 3 using sorted_run[OF al gl] by blast
  next
    case 4
    show ?thesis unfolding 4 using sorted_run[OF al gl] by blast
  qed
qed

lemma generate_done:
  assumes "snd (generate e out) = Inr c"
  shows "fst (generate e out) \<noteq> [] \<and> stage (last (fst (generate e out))) = ''Done''
       \<and> progress (last (fst (generate e out))) = 1"
  using assms
  by (auto simp: generate_def Let_def emit_progress_def
      split: option.splits sum.splits prod.splits)

text \<open>
  On every path on which the ML tier does not return \<open>None\<close> after ``Running EDGE
  inference'', the progress values that \<open>generate\<close> prints are non-decreasing; a run that
  succeeds ends with ``Done'' at 1, and a run that fails ends with the Error event at 0.
\<close>

lemma run_final_event:
  "(snd (main e) = 0 \<longrightarrow>
      fst (main e) \<noteq> [] \<and> stage (last (fst (main e))) = ''Done''
      \<and> progress (last (fst (main e))) = 1)
   \<and> (snd (main e) \<noteq> 0 \<longrightarrow>
      fst (main e) \<noteq> [] \<and> stage (last (fst (main e))) = ''Error''
      \<and> progress (last (fst (main e))) = 0)"
proof (cases "isfile e")
  case False
  then show ?thesis by (simp add: main_def error_event_def)
next
  case True
  obtain out r where g: "generate e [] = (out, r)" by (cases "generate e []")
  show ?thesis
  proof (cases r)
    case (Inl ex)
    then show ?thesis using True g by (simp add: main_def error_event_def)
  next
    case (Inr c)
    have "out \<noteq> [] \<and> stage (last out) = ''Done'' \<and> progress (last out) = 1"
      using generate_done[of e "[]" c] g Inr by simp
    then show ?thesis using True g Inr by (simp add: main_def)
  qed
qed

lemma run_sorted_unless_late_failure:
  assumes "\<not> ml_fails_late (edge e)" and "snd (main e) = 0"
  shows "sorted (map progress (fst (main e)))"
proof -
  from assms(2) have "fst (main e) = fst (generate e [])"
    by (auto simp: main_def split: if_splits prod.splits sum.splits)
  then show ?thesis using generate_sorted[OF assms(1)] by simp
qed

lemma run_template_example:
  "main \<lparr>mp3_path = ''a.mp3'', output_dir = ''out/abc'', isfile = True, makedirs = None,
             librosa = Inr (1, 120, [0]), soundfile = Inr 1,
             edge = EdgeSpecMissing, write_analysis = None, write_choreo = None,
             fl_round = (\<lambda>x. x)\<rparr>
     = ([\<lparr>stage = ''Analyzing music'', progress = 0.1, error = None\<rparr>,
         \<lparr>stage = ''Generating moves'', progress = 0.3, error = None\<rparr>,
         \<lparr>stage = ''Generating moves (template mode)'', progress = 0.4, error = None\<rparr>,
         \<lparr>stage = ''Saving choreography'', progress = 0.9, error = None\<rparr>,
         \<lparr>stage = ''Done'', progress = 1.0, error = None\<rparr>], 0)"
  unfolding main_def by (simp only: fallback_example) simp

lemma run_error_example:
  "main \<lparr>mp3_path = ''a.mp3'', output_dir = ''out/abc'', isfile = True, makedirs = None,
             librosa = Inr (1, 120, [0]), soundfile = Inr 1,
             edge = EdgeSpecMissing, write_analysis = Some (External ''disk full''),
             write_choreo = None, fl_round = (\<lambda>x. x)\<rparr>
     = ([\<lparr>stage = ''Analyzing music'', progress = 0.1, error = None\<rparr>,
         \<lparr>stage = ''Error'', progress = 0, error = Some ''disk full''\<rparr>], 1)"
  by (simp add: main_def generate_def analyze_def analyze_primary_def emit_progress_def
      error_event_def)

lemma run_inference_fails_example:
  "main \<lparr>mp3_path = ''a.mp3'', output_dir = ''out/abc'', isfile = True, makedirs = None,
             librosa = Inr (1, 120, [0]), soundfile = Inr 1,
             edge = EdgeInferenceFails (External ''out of memory''),
             write_analysis = None, write_choreo = None,
             fl_round = (\<lambda>x. x)\<rparr>
     = ([\<lparr>stage = ''Analyzing music'', progress = 0.1, error = None\<rparr>,
         \<lparr>stage = ''Generating moves'', progress = 0.3, error = None\<rparr>,
         \<lparr>stage = ''Loading EDGE model'', progress = 0.35, error = None\<rparr>,
         \<lparr>stage = ''Running EDGE inference'', progress = 0.5, error = None\<rparr>,
         \<lparr>stage = ''Generating moves (template mode)'', progress = 0.4, error = None\<rparr>,
         \<lparr>stage = ''Saving choreography'', progress = 0.9, error = None\<rparr>,
         \<lparr>stage = ''Done'', progress = 1.0, error = None\<rparr>], 0)"
  by (simp add: main_def generate_def analyze_def analyze_primary_def generate_frames_def
      try_edge_generation_def edge_body_def emit_progress_def generate_template_choreo_def
      Let_def)

text \<open>
  C9.  The code breaks the claim on a run that succeeds: when the inference raises after
  ``Running EDGE inference'' (0.5), \<open>try_edge_generation\<close> returns \<open>None\<close> and the next
  event is the template mode, at 0.4; the progress values of the run are 0.1, 0.3, 0.35,
  0.5, 0.4, 0.9, 1.0, which is not a non-decreasing sequence.
\<close>

theorem late_ml_failure_progress_regresses:
  "snd (main \<lparr>mp3_path = ''a.mp3'', output_dir = ''out/abc'', isfile = True, makedirs = None,
             librosa = Inr (1, 120, [0]), soundfile = Inr 1,
             edge = EdgeInferenceFails (External ''out of memory''),
             write_analysis = None, write_choreo = None, fl_round = (\<lambda>x. x)\<rparr>) = 0
   \<and> map progress (fst (main \<lparr>mp3_path = ''a.mp3'', output_dir = ''out/abc'', isfile = True,
             makedirs = None, librosa = Inr (1, 120, [0]), soundfile = Inr 1,
             edge = EdgeInferenceFails (External ''out of memory''),
             write_analysis = None, write_choreo = None, fl_round = (\<lambda>x. x)\<rparr>))
       = [0.1, 0.3, 0.35, 0.5, 0.4, 0.9, 1.0]
   \<and> \<not> sorted (map progress (fst (main \<lparr>mp3_path = ''a.mp3'', output_dir = ''out/abc'',
             isfile = True, makedirs = None, librosa = Inr (1, 120, [0]), soundfile = Inr 1,
             edge = EdgeInferenceFails (External ''out of memory''),
             write_analysis = None, write_choreo = None, fl_round = (\<lambda>x. x)\<rparr>)))"
  by (simp only: run_inference_fails_example) simp

end
